theory Spec2Isabelle
  imports Complex_Main
begin

section \<open>Resilience options: the validator of \<open>resilience_options.py\<close>\<close>

subsection \<open>Python values, exceptions and the option vocabularies\<close>

text \<open>
  The values a caller can bind in the override dictionary. The validator compares them
  with string constants, tests them for \<open>None\<close> and for truth, and takes \<open>len\<close>
  of one of them; nothing else is observed. A float is carried as a real number: the only
  thing read from it is whether it is zero.
\<close>

datatype pyval =
    PyNone
  | PyBool bool
  | PyInt int
  | PyFloat real
  | PyStr string
  | PyList "pyval list"
  | PyTuple "pyval list"

text \<open>
  An exception message is kept as the pieces of its f-string: literal text, and
  \<open>Fmt v\<close> for a replacement field \<open>{v}\<close> (the text \<open>str(v)\<close>).
\<close>

datatype frag = Lit string | Fmt pyval

datatype exn = ValueError "frag list" | TypeError "frag list"

text \<open>\<open>get_args\<close> of the three \<open>Literal\<close> types: the tuples of their strings.\<close>

definition ResilienceSupportedOptions :: "string list" where
  "ResilienceSupportedOptions = [''noise_amplifier'', ''noise_factors'', ''extrapolator'']"

definition NoiseAmplifierType :: "string list" where
  "NoiseAmplifierType =
     [''TwoQubitAmplifier'', ''GlobalFoldingAmplifier'', ''LocalFoldingAmplifier'',
      ''CxAmplifier'']"

definition ExtrapolatorType :: "string list" where
  "ExtrapolatorType =
     [''LinearExtrapolator'', ''QuadraticExtrapolator'', ''CubicExtrapolator'',
      ''QuarticExtrapolator'']"

text \<open>
  \<open>v in get_args(T)\<close>: membership in a tuple of strings, decided by \<open>==\<close>. Only a
  string equals a string.
\<close>

definition py_in :: "pyval \<Rightarrow> string list \<Rightarrow> bool" where
  "py_in v T = (v \<in> set (map PyStr T))"

text \<open>
  The dictionary is an association list in insertion order, which is the order the
  \<open>for\<close> loop visits the keys in. \<open>d.get(k)\<close> and \<open>d.get(k, None)\<close> give
  \<open>None\<close> for a missing key. A dictionary holds each key once; no statement below
  needs that, so none assumes it.
\<close>

type_synonym pydict = "(string \<times> pyval) list"

definition py_get :: "pydict \<Rightarrow> string \<Rightarrow> pyval" where
  "py_get d k = (case map_of d k of None \<Rightarrow> PyNone | Some v \<Rightarrow> v)"

text \<open>Truth value of an object, as \<open>or\<close> tests it.\<close>

fun truthy :: "pyval \<Rightarrow> bool" where
  "truthy PyNone = False"
| "truthy (PyBool b) = b"
| "truthy (PyInt i) = (i \<noteq> 0)"
| "truthy (PyFloat x) = (x \<noteq> 0)"
| "truthy (PyStr s) = (s \<noteq> [])"
| "truthy (PyList xs) = (xs \<noteq> [])"
| "truthy (PyTuple xs) = (xs \<noteq> [])"

definition py_or :: "pyval \<Rightarrow> pyval \<Rightarrow> pyval" where
  "py_or x y = (if truthy x then x else y)"

text \<open>\<open>type(v).__name__\<close>, as the \<open>TypeError\<close> of \<open>len\<close> prints it.\<close>

fun type_name :: "pyval \<Rightarrow> string" where
  "type_name PyNone = ''NoneType''"
| "type_name (PyBool b) = ''bool''"
| "type_name (PyInt i) = ''int''"
| "type_name (PyFloat x) = ''float''"
| "type_name (PyStr s) = ''str''"
| "type_name (PyList xs) = ''list''"
| "type_name (PyTuple xs) = ''tuple''"

text \<open>
  \<open>len(v)\<close>: strings, lists and tuples have a length, the other values raise. A
  string is the list of its characters, one \<open>char\<close> for each.
\<close>

fun py_len :: "pyval \<Rightarrow> exn + nat" where
  "py_len (PyStr s) = Inr (length s)"
| "py_len (PyList xs) = Inr (length xs)"
| "py_len (PyTuple xs) = Inr (length xs)"
| "py_len v = Inl (TypeError [Lit (''object of type '' @ [CHR 0x27]), Lit (type_name v),
                             Lit ''' has no len()''])"

subsection \<open>The program state and the deprecation notice\<close>

record deprecation =
  msg :: string
  version :: string
  period :: string
  remedy :: string

text \<open>
  What the call can touch: the dictionary object its argument refers to, and the sink
  that deprecation notices go to.
\<close>

record pystate =
  resilience_options :: pydict
  emitted :: "deprecation list"

text \<open>
  Modelled from the spec: \<open>issue_deprecation_msg\<close> of \<open>utils/deprecation.py\<close>, which
  is not among the sources. The spec has it emit one notice carrying the message, the
  version, the grace period and the remedy to a diagnostics sink, and return: ``a logged
  or emitted warning, not a validation failure; execution continues''.
\<close>

definition issue_deprecation_msg ::
  "string \<Rightarrow> string \<Rightarrow> string \<Rightarrow> string \<Rightarrow> pystate \<Rightarrow> pystate" where
  "issue_deprecation_msg m v p r s =
     s\<lparr>emitted := emitted s @ [\<lparr>msg = m, version = v, period = p, remedy = r\<rparr>]\<rparr>"

subsection \<open>The exceptions the validator raises\<close>

definition unsupported_option :: "string \<Rightarrow> exn" where
  "unsupported_option opt =
     ValueError [Lit (''Unsupported value '' @ [CHR 0x27]), Fmt (PyStr opt),
                 Lit ''' for resilience.'']"

definition unsupported_noise_amplifier :: "pyval \<Rightarrow> exn" where
  "unsupported_noise_amplifier noise_amplifier =
     ValueError [Lit ''Unsupported value '', Fmt noise_amplifier,
                 Lit '' for noise_amplifier. Supported values are '',
                 Fmt (PyTuple (map PyStr NoiseAmplifierType))]"

definition unsupported_extrapolator :: "pyval \<Rightarrow> exn" where
  "unsupported_extrapolator extrapolator =
     ValueError [Lit ''Unsupported value '', Fmt extrapolator,
                 Lit '' for extrapolator. Supported values are '',
                 Fmt (PyTuple (map PyStr ExtrapolatorType))]"

definition quartic_insufficient :: exn where
  "quartic_insufficient =
     ValueError [Lit ''QuarticExtrapolator requires at least 5 noise_factors.'']"

definition cubic_insufficient :: exn where
  "cubic_insufficient =
     ValueError [Lit ''CubicExtrapolator requires at least 4 noise_factors.'']"

subsection \<open>\<open>ResilienceOptions.validate_resilience_options\<close>\<close>

text \<open>
  The loop over the keys: the first key outside the supported names raises, and a loop
  that finishes returns nothing (\<open>None\<close>: no key raised).
\<close>

fun check_keys :: "string list \<Rightarrow> exn option" where
  "check_keys [] = None"
| "check_keys (opt # opts) =
     (if \<not> opt \<in> set ResilienceSupportedOptions then Some (unsupported_option opt)
      else check_keys opts)"

text \<open>
  The function returns \<open>None\<close> (here \<open>Inr ()\<close>) or raises (\<open>Inl\<close>), and leaves a
  state behind in both cases. The statements follow the source in order; \<open>and\<close>
  evaluates \<open>len\<close> only when the comparison before it is true.
\<close>

definition validate_resilience_options :: "pystate \<Rightarrow> (exn + unit) \<times> pystate" where
  "validate_resilience_options s0 =
     (let s = (if py_get (resilience_options s0) ''noise_amplifier'' \<noteq> PyNone
               then issue_deprecation_msg
                      ''The 'noise_amplifier' resilience option is deprecated''
                      ''0.12.0''
                      ''1 month''
                      (''After the deprecation period, only local folding amplification ''
                       @ ''will be supported. ''
                       @ ''Refer to https://github.com/qiskit-community/prototype-zne ''
                       @ ''for global folding amplification in ZNE.'')
                      s0
               else s0)
      in case check_keys (map fst (resilience_options s)) of
           Some e \<Rightarrow> (Inl e, s)
         | None \<Rightarrow>
      let noise_amplifier =
            py_or (py_get (resilience_options s) ''noise_amplifier'') (PyStr ''TwoQubitAmplifier'')
      in if \<not> py_in noise_amplifier NoiseAmplifierType
         then (Inl (unsupported_noise_amplifier noise_amplifier), s)
         else
      let extrapolator = py_get (resilience_options s) ''extrapolator''
      in if \<not> py_in extrapolator ExtrapolatorType
         then (Inl (unsupported_extrapolator extrapolator), s)
         else
      if extrapolator = PyStr ''QuarticExtrapolator''
      then (case py_len (py_get (resilience_options s) ''noise_factors'') of
              Inl e \<Rightarrow> (Inl e, s)
            | Inr n \<Rightarrow> if n < 5 then (Inl quartic_insufficient, s) else (Inr (), s))
      else
      if extrapolator = PyStr ''CubicExtrapolator''
      then (case py_len (py_get (resilience_options s) ''noise_factors'') of
              Inl e \<Rightarrow> (Inl e, s)
            | Inr n \<Rightarrow> if n < 4 then (Inl cubic_insufficient, s) else (Inr (), s))
      else (Inr (), s))"

text \<open>The notice that the call of \<open>issue_deprecation_msg\<close> in the validator emits.\<close>

definition noise_amplifier_notice :: deprecation where
  "noise_amplifier_notice =
     \<lparr>msg = ''The 'noise_amplifier' resilience option is deprecated'',
      version = ''0.12.0'',
      period = ''1 month'',
      remedy = ''After the deprecation period, only local folding amplification will be supported. Refer to https://github.com/qiskit-community/prototype-zne for global folding amplification in ZNE.''\<rparr>"

text \<open>
  The field defaults of the dataclass \<open>ResilienceOptions\<close>, as the dictionary of its
  fields in declaration order.
\<close>

definition ResilienceOptions_defaults :: pydict where
  "ResilienceOptions_defaults =
     [(''noise_amplifier'', PyNone),
      (''noise_factors'', PyTuple [PyInt 1, PyInt 3, PyInt 5]),
      (''extrapolator'', PyStr ''LinearExtrapolator'')]"

section \<open>Properties of the validator\<close>

subsection \<open>The key loop\<close>

lemma check_keys_None:
  "check_keys ks = None \<longleftrightarrow> set ks \<subseteq> set ResilienceSupportedOptions"
  by (induction ks) simp_all

lemma check_keys_Some:
  "check_keys ks = Some e \<Longrightarrow>
     \<exists>pre k post. ks = pre @ k # post \<and> set pre \<subseteq> set ResilienceSupportedOptions
        \<and> k \<notin> set ResilienceSupportedOptions \<and> e = unsupported_option k"
proof (induction ks)
  case Nil
  then show ?case by simp
next
  case (Cons a ks)
  show ?case
  proof (cases "a \<in> set ResilienceSupportedOptions")
    case False
    with Cons.prems have "e = unsupported_option a" by simp
    with False have "a # ks = [] @ a # ks \<and> set [] \<subseteq> set ResilienceSupportedOptions
        \<and> a \<notin> set ResilienceSupportedOptions \<and> e = unsupported_option a"
      by simp
    then show ?thesis by blast
  next
    case True
    with Cons.prems have "check_keys ks = Some e" by simp
    from Cons.IH [OF this] obtain pre k post where
      *: "ks = pre @ k # post" "set pre \<subseteq> set ResilienceSupportedOptions"
         "k \<notin> set ResilienceSupportedOptions" "e = unsupported_option k"
      by blast
    with True have "a # ks = (a # pre) @ k # post
        \<and> set (a # pre) \<subseteq> set ResilienceSupportedOptions
        \<and> k \<notin> set ResilienceSupportedOptions \<and> e = unsupported_option k"
      by simp
    then show ?thesis by blast
  qed
qed

subsection \<open>The state a call leaves, and its outcome\<close>

lemma issue_notice:
  "issue_deprecation_msg
     ''The 'noise_amplifier' resilience option is deprecated'' ''0.12.0'' ''1 month''
     (''After the deprecation period, only local folding amplification ''
      @ ''will be supported. ''
      @ ''Refer to https://github.com/qiskit-community/prototype-zne ''
      @ ''for global folding amplification in ZNE.'') s
   = s\<lparr>emitted := emitted s @ [noise_amplifier_notice]\<rparr>"
  by (simp add: issue_deprecation_msg_def noise_amplifier_notice_def)

lemma opts_after_notice:
  "resilience_options (if c then issue_deprecation_msg m v p r s else s) = resilience_options s"
  by (simp add: issue_deprecation_msg_def)

lemma case_option_const: "(case x of None \<Rightarrow> c | Some e \<Rightarrow> c) = c"
  by (cases x) simp_all

lemma case_sum_const: "(case x of Inl e \<Rightarrow> c | Inr n \<Rightarrow> c) = c"
  by (cases x) simp_all

lemma validate_snd:
  "snd (validate_resilience_options s) =
     (if py_get (resilience_options s) ''noise_amplifier'' \<noteq> PyNone
      then s\<lparr>emitted := emitted s @ [noise_amplifier_notice]\<rparr> else s)"
  unfolding validate_resilience_options_def issue_notice Let_def
  by (simp only: if_distrib[of snd] option.case_distrib[of snd] sum.case_distrib[of snd]
      snd_conv if_cancel case_option_const case_sum_const)

lemma validate_fst:
  "fst (validate_resilience_options s) =
     (case check_keys (map fst (resilience_options s)) of
        Some e \<Rightarrow> Inl e
      | None \<Rightarrow>
        if \<not> py_in (py_or (py_get (resilience_options s) ''noise_amplifier'')
                       (PyStr ''TwoQubitAmplifier'')) NoiseAmplifierType
        then Inl (unsupported_noise_amplifier
                    (py_or (py_get (resilience_options s) ''noise_amplifier'')
                       (PyStr ''TwoQubitAmplifier'')))
        else if \<not> py_in (py_get (resilience_options s) ''extrapolator'') ExtrapolatorType
        then Inl (unsupported_extrapolator (py_get (resilience_options s) ''extrapolator''))
        else if py_get (resilience_options s) ''extrapolator'' = PyStr ''QuarticExtrapolator''
        then (case py_len (py_get (resilience_options s) ''noise_factors'') of
                Inl e \<Rightarrow> Inl e
              | Inr n \<Rightarrow> if n < 5 then Inl quartic_insufficient else Inr ())
        else if py_get (resilience_options s) ''extrapolator'' = PyStr ''CubicExtrapolator''
        then (case py_len (py_get (resilience_options s) ''noise_factors'') of
                Inl e \<Rightarrow> Inl e
              | Inr n \<Rightarrow> if n < 4 then Inl cubic_insufficient else Inr ())
        else Inr ())"
  unfolding validate_resilience_options_def Let_def opts_after_notice
  by (simp only: if_distrib[of fst] option.case_distrib[of fst] sum.case_distrib[of fst]
      fst_conv)

text \<open>Once the keys are all supported, the loop is over and the value checks decide.\<close>

lemma validate_fst_keys_ok:
  assumes "set (map fst (resilience_options s)) \<subseteq> set ResilienceSupportedOptions"
  shows "fst (validate_resilience_options s) =
     (if \<not> py_in (py_or (py_get (resilience_options s) ''noise_amplifier'')
                       (PyStr ''TwoQubitAmplifier'')) NoiseAmplifierType
      then Inl (unsupported_noise_amplifier
                  (py_or (py_get (resilience_options s) ''noise_amplifier'')
                     (PyStr ''TwoQubitAmplifier'')))
      else if \<not> py_in (py_get (resilience_options s) ''extrapolator'') ExtrapolatorType
      then Inl (unsupported_extrapolator (py_get (resilience_options s) ''extrapolator''))
      else if py_get (resilience_options s) ''extrapolator'' = PyStr ''QuarticExtrapolator''
      then (case py_len (py_get (resilience_options s) ''noise_factors'') of
              Inl e \<Rightarrow> Inl e
            | Inr n \<Rightarrow> if n < 5 then Inl quartic_insufficient else Inr ())
      else if py_get (resilience_options s) ''extrapolator'' = PyStr ''CubicExtrapolator''
      then (case py_len (py_get (resilience_options s) ''noise_factors'') of
              Inl e \<Rightarrow> Inl e
            | Inr n \<Rightarrow> if n < 4 then Inl cubic_insufficient else Inr ())
      else Inr ())"
proof -
  from assms have "check_keys (map fst (resilience_options s)) = None"
    by (simp only: check_keys_None)
  then show ?thesis
    by (simp only: validate_fst option.case)
qed

lemma validate_fst_bad_key:
  assumes "check_keys (map fst (resilience_options s)) = Some e"
  shows "fst (validate_resilience_options s) = Inl e"
  using assms by (simp only: validate_fst option.case)

lemma py_len_TypeError: "py_len v = Inl e \<Longrightarrow> \<exists>m. e = TypeError m"
  by (cases v) auto

text \<open>
  Every failure of a call is the failure of one of its checks, reached with all the
  checks before it passed.
\<close>

lemma validate_Inl_cases:
  assumes "fst (validate_resilience_options s) = Inl e"
  shows "check_keys (map fst (resilience_options s)) = Some e
    \<or> (set (map fst (resilience_options s)) \<subseteq> set ResilienceSupportedOptions
       \<and> ((\<not> py_in (py_or (py_get (resilience_options s) ''noise_amplifier'')
                        (PyStr ''TwoQubitAmplifier'')) NoiseAmplifierType
            \<and> e = unsupported_noise_amplifier
                    (py_or (py_get (resilience_options s) ''noise_amplifier'')
                       (PyStr ''TwoQubitAmplifier'')))
          \<or> (py_in (py_or (py_get (resilience_options s) ''noise_amplifier'')
                        (PyStr ''TwoQubitAmplifier'')) NoiseAmplifierType
              \<and> ((\<not> py_in (py_get (resilience_options s) ''extrapolator'') ExtrapolatorType
                   \<and> e = unsupported_extrapolator
                           (py_get (resilience_options s) ''extrapolator''))
                 \<or> (py_get (resilience_options s) ''extrapolator'' = PyStr ''QuarticExtrapolator''
                     \<and> (py_len (py_get (resilience_options s) ''noise_factors'') = Inl e
                        \<or> (\<exists>n<5. py_len (py_get (resilience_options s) ''noise_factors'') = Inr n
                              \<and> e = quartic_insufficient)))
                 \<or> (py_get (resilience_options s) ''extrapolator'' = PyStr ''CubicExtrapolator''
                     \<and> (py_len (py_get (resilience_options s) ''noise_factors'') = Inl e
                        \<or> (\<exists>n<4. py_len (py_get (resilience_options s) ''noise_factors'') = Inr n
                              \<and> e = cubic_insufficient)))))))"
proof (cases "check_keys (map fst (resilience_options s))")
  case (Some e')
  with assms show ?thesis
    by (simp add: validate_fst_bad_key)
next
  case None
  then have keys: "set (map fst (resilience_options s)) \<subseteq> set ResilienceSupportedOptions"
    by (simp only: check_keys_None)
  from assms show ?thesis
    unfolding validate_fst_keys_ok [OF keys]
    using keys by (auto split: if_splits sum.splits)
qed

subsection \<open>The exceptions are told apart by their messages\<close>

lemma unsupported_option_inject [simp]:
  "unsupported_option k = unsupported_option k' \<longleftrightarrow> k = k'"
  by (simp add: unsupported_option_def)

lemma unsupported_noise_amplifier_inject [simp]:
  "unsupported_noise_amplifier v = unsupported_noise_amplifier v' \<longleftrightarrow> v = v'"
  by (simp add: unsupported_noise_amplifier_def)

lemma unsupported_extrapolator_inject [simp]:
  "unsupported_extrapolator v = unsupported_extrapolator v' \<longleftrightarrow> v = v'"
  by (simp add: unsupported_extrapolator_def)

lemma exn_distinct [simp]:
  "unsupported_option k \<noteq> unsupported_noise_amplifier v"
  "unsupported_option k \<noteq> unsupported_extrapolator v"
  "unsupported_option k \<noteq> quartic_insufficient"
  "unsupported_option k \<noteq> cubic_insufficient"
  "unsupported_noise_amplifier v \<noteq> unsupported_option k"
  "unsupported_noise_amplifier v \<noteq> unsupported_extrapolator w"
  "unsupported_noise_amplifier v \<noteq> quartic_insufficient"
  "unsupported_noise_amplifier v \<noteq> cubic_insufficient"
  "unsupported_extrapolator w \<noteq> unsupported_option k"
  "unsupported_extrapolator w \<noteq> unsupported_noise_amplifier v"
  "unsupported_extrapolator w \<noteq> quartic_insufficient"
  "unsupported_extrapolator w \<noteq> cubic_insufficient"
  "quartic_insufficient \<noteq> unsupported_option k"
  "quartic_insufficient \<noteq> unsupported_noise_amplifier v"
  "quartic_insufficient \<noteq> unsupported_extrapolator w"
  "quartic_insufficient \<noteq> cubic_insufficient"
  "cubic_insufficient \<noteq> unsupported_option k"
  "cubic_insufficient \<noteq> unsupported_noise_amplifier v"
  "cubic_insufficient \<noteq> unsupported_extrapolator w"
  "cubic_insufficient \<noteq> quartic_insufficient"
  by (simp_all add: unsupported_option_def unsupported_noise_amplifier_def
      unsupported_extrapolator_def quartic_insufficient_def cubic_insufficient_def)

lemma py_len_not_ValueError [simp]:
  "py_len v \<noteq> Inl (unsupported_option k)"
  "py_len v \<noteq> Inl (unsupported_noise_amplifier w)"
  "py_len v \<noteq> Inl (unsupported_extrapolator w)"
  "py_len v \<noteq> Inl quartic_insufficient"
  "py_len v \<noteq> Inl cubic_insufficient"
  by (cases v; simp add: unsupported_option_def unsupported_noise_amplifier_def
      unsupported_extrapolator_def quartic_insufficient_def cubic_insufficient_def)+

lemma supported_names:
  "set ResilienceSupportedOptions = {''noise_amplifier'', ''noise_factors'', ''extrapolator''}"
  by (simp add: ResilienceSupportedOptions_def)

lemma py_in_ExtrapolatorType:
  "py_in v ExtrapolatorType \<longleftrightarrow>
     v \<in> {PyStr ''LinearExtrapolator'', PyStr ''QuadraticExtrapolator'',
          PyStr ''CubicExtrapolator'', PyStr ''QuarticExtrapolator''}"
  by (simp add: py_in_def ExtrapolatorType_def)

lemma py_in_NoiseAmplifierType:
  "py_in v NoiseAmplifierType \<longleftrightarrow>
     v \<in> {PyStr ''TwoQubitAmplifier'', PyStr ''GlobalFoldingAmplifier'',
          PyStr ''LocalFoldingAmplifier'', PyStr ''CxAmplifier''}"
  by (simp add: py_in_def NoiseAmplifierType_def)

lemma py_get_absent: "k \<notin> fst ` set d \<Longrightarrow> py_get d k = PyNone"
  by (simp add: py_get_def map_of_eq_None_iff [THEN iffD2])

text \<open>
  What the two first checks raise, with the messages written out: the key loop at the
  first unsupported key, and the noise amplifier check once the keys are all supported.
\<close>

lemma key_loop_rejects:
  "(\<not> fst ` set (resilience_options s)
          \<subseteq> {''noise_amplifier'', ''noise_factors'', ''extrapolator''} \<longrightarrow>
        (\<exists>pre k post. map fst (resilience_options s) = pre @ k # post
           \<and> set pre \<subseteq> {''noise_amplifier'', ''noise_factors'', ''extrapolator''}
           \<and> k \<notin> {''noise_amplifier'', ''noise_factors'', ''extrapolator''}
           \<and> fst (validate_resilience_options s) =
               Inl (ValueError [Lit (''Unsupported value '' @ [CHR 0x27]), Fmt (PyStr k),
                                Lit ''' for resilience.''])))"
proof
  assume "\<not> fst ` set (resilience_options s) \<subseteq> {''noise_amplifier'', ''noise_factors'', ''extrapolator''}"
  then have "check_keys (map fst (resilience_options s)) \<noteq> None"
    by (simp only: check_keys_None supported_names set_map not_False_eq_True)
  then obtain e where e: "check_keys (map fst (resilience_options s)) = Some e"
    by blast
  from check_keys_Some [OF e] obtain pre k post where
    *: "map fst (resilience_options s) = pre @ k # post"
       "set pre \<subseteq> set ResilienceSupportedOptions"
       "k \<notin> set ResilienceSupportedOptions" "e = unsupported_option k"
    by blast
  from e have "fst (validate_resilience_options s) = Inl e"
    by (rule validate_fst_bad_key)
  with * show "\<exists>pre k post. map fst (resilience_options s) = pre @ k # post
           \<and> set pre \<subseteq> {''noise_amplifier'', ''noise_factors'', ''extrapolator''}
           \<and> k \<notin> {''noise_amplifier'', ''noise_factors'', ''extrapolator''}
           \<and> fst (validate_resilience_options s) =
               Inl (ValueError [Lit (''Unsupported value '' @ [CHR 0x27]), Fmt (PyStr k),
                                Lit ''' for resilience.''])"
    unfolding supported_names unsupported_option_def by blast
qed

lemma noise_amplifier_check_rejects:
  "(fst ` set (resilience_options s)
          \<subseteq> {''noise_amplifier'', ''noise_factors'', ''extrapolator''}
        \<and> py_or (py_get (resilience_options s) ''noise_amplifier'') (PyStr ''TwoQubitAmplifier'')
          \<notin> {PyStr ''TwoQubitAmplifier'', PyStr ''GlobalFoldingAmplifier'',
              PyStr ''LocalFoldingAmplifier'', PyStr ''CxAmplifier''} \<longrightarrow>
        fst (validate_resilience_options s) =
          Inl (ValueError
            [Lit ''Unsupported value '',
             Fmt (py_or (py_get (resilience_options s) ''noise_amplifier'') (PyStr ''TwoQubitAmplifier'')),
             Lit '' for noise_amplifier. Supported values are '',
             Fmt (PyTuple [PyStr ''TwoQubitAmplifier'', PyStr ''GlobalFoldingAmplifier'',
                           PyStr ''LocalFoldingAmplifier'', PyStr ''CxAmplifier''])]))"
proof (intro impI, elim conjE)
  assume "fst ` set (resilience_options s) \<subseteq> {''noise_amplifier'', ''noise_factors'', ''extrapolator''}"
  then have keys: "set (map fst (resilience_options s)) \<subseteq> set ResilienceSupportedOptions"
    by (simp only: supported_names set_map)
  assume "py_or (py_get (resilience_options s) ''noise_amplifier'') (PyStr ''TwoQubitAmplifier'')
          \<notin> {PyStr ''TwoQubitAmplifier'', PyStr ''GlobalFoldingAmplifier'',
              PyStr ''LocalFoldingAmplifier'', PyStr ''CxAmplifier''}"
  then have "\<not> py_in (py_or (py_get (resilience_options s) ''noise_amplifier'') (PyStr ''TwoQubitAmplifier'')) NoiseAmplifierType"
    by (simp only: py_in_NoiseAmplifierType not_False_eq_True)
  with keys show "fst (validate_resilience_options s) =
          Inl (ValueError
            [Lit ''Unsupported value '',
             Fmt (py_or (py_get (resilience_options s) ''noise_amplifier'') (PyStr ''TwoQubitAmplifier'')),
             Lit '' for noise_amplifier. Supported values are '',
             Fmt (PyTuple [PyStr ''TwoQubitAmplifier'', PyStr ''GlobalFoldingAmplifier'',
                           PyStr ''LocalFoldingAmplifier'', PyStr ''CxAmplifier''])])"
    by (simp add: validate_fst_keys_ok unsupported_noise_amplifier_def NoiseAmplifierType_def)
qed


subsection \<open>A noise amplifier that is false without being \<open>None\<close>\<close>

text \<open>
  The test before the notice is \<open>is not None\<close>, the resolution before the value check
  is \<open>or\<close>. For the empty string the two disagree: the notice is emitted as for a
  supplied value, and the default is checked in its place, so that a value outside the
  four names passes, where the docstring of the function announces a \<open>ValueError\<close>
  ``if noise_amplifier is not in NoiseAmplifierType''.
\<close>

lemma false_noise_amplifier_accepted:
  "validate_resilience_options
     \<lparr>resilience_options =
        [(''noise_amplifier'', PyStr ''''), (''extrapolator'', PyStr ''LinearExtrapolator'')],
      emitted = []\<rparr> =
   (Inr (),
    \<lparr>resilience_options =
        [(''noise_amplifier'', PyStr ''''), (''extrapolator'', PyStr ''LinearExtrapolator'')],
     emitted = [noise_amplifier_notice]\<rparr>)"
  by (simp add: prod_eq_iff validate_fst validate_snd py_get_def py_or_def py_in_def
      ResilienceSupportedOptions_def NoiseAmplifierType_def ExtrapolatorType_def)

section \<open>The claims\<close>

text \<open>
  C4. A dictionary with a key outside \<open>noise_amplifier\<close>, \<open>noise_factors\<close>,
  \<open>extrapolator\<close> is rejected with the \<open>ValueError\<close> of the key loop, whose message
  names the first such key in iteration order; this happens whatever the values are, since
  only the deprecation notice comes before the loop. A dictionary whose keys are all among
  the three names never raises that error.
\<close>

theorem unsupported_key_rejected:
  "(\<not> fst ` set (resilience_options s)
        \<subseteq> {''noise_amplifier'', ''noise_factors'', ''extrapolator''} \<longrightarrow>
      (\<exists>pre k post. map fst (resilience_options s) = pre @ k # post
         \<and> set pre \<subseteq> {''noise_amplifier'', ''noise_factors'', ''extrapolator''}
         \<and> k \<notin> {''noise_amplifier'', ''noise_factors'', ''extrapolator''}
         \<and> fst (validate_resilience_options s) =
             Inl (ValueError [Lit (''Unsupported value '' @ [CHR 0x27]), Fmt (PyStr k),
                              Lit ''' for resilience.''])))
   \<and> (fst ` set (resilience_options s)
        \<subseteq> {''noise_amplifier'', ''noise_factors'', ''extrapolator''} \<longrightarrow>
      (\<forall>k. fst (validate_resilience_options s) \<noteq> Inl (unsupported_option k)))"
proof (intro conjI impI)
  assume "\<not> fst ` set (resilience_options s)
            \<subseteq> {''noise_amplifier'', ''noise_factors'', ''extrapolator''}"
  then have "check_keys (map fst (resilience_options s)) \<noteq> None"
    by (simp only: check_keys_None supported_names set_map not_False_eq_True)
  then obtain e where e: "check_keys (map fst (resilience_options s)) = Some e"
    by blast
  from check_keys_Some [OF e] obtain pre k post where
    *: "map fst (resilience_options s) = pre @ k # post"
       "set pre \<subseteq> set ResilienceSupportedOptions"
       "k \<notin> set ResilienceSupportedOptions" "e = unsupported_option k"
    by blast
  from e have "fst (validate_resilience_options s) = Inl e"
    by (rule validate_fst_bad_key)
  with * show "\<exists>pre k post. map fst (resilience_options s) = pre @ k # post
         \<and> set pre \<subseteq> {''noise_amplifier'', ''noise_factors'', ''extrapolator''}
         \<and> k \<notin> {''noise_amplifier'', ''noise_factors'', ''extrapolator''}
         \<and> fst (validate_resilience_options s) =
             Inl (ValueError [Lit (''Unsupported value '' @ [CHR 0x27]), Fmt (PyStr k),
                              Lit ''' for resilience.''])"
    unfolding supported_names unsupported_option_def by blast
next
  assume "fst ` set (resilience_options s)
            \<subseteq> {''noise_amplifier'', ''noise_factors'', ''extrapolator''}"
  then have keys: "check_keys (map fst (resilience_options s)) = None"
    by (simp only: check_keys_None supported_names set_map)
  show "\<forall>k. fst (validate_resilience_options s) \<noteq> Inl (unsupported_option k)"
  proof (intro allI notI)
    fix k
    assume "fst (validate_resilience_options s) = Inl (unsupported_option k)"
    from validate_Inl_cases [OF this] keys show False
      by simp
  qed
qed

text \<open>
  The theorem at \<open>{"foo": 1}\<close> (scenario 4 of the spec), which is rejected naming
  \<open>foo\<close>, and at \<open>{"extrapolator": "Bogus"}\<close>, whose failure is not the key error.
\<close>

theorem unsupported_key_rejected_witness:
  "\<not> fst ` set [(''foo'', PyInt 1)] \<subseteq> {''noise_amplifier'', ''noise_factors'', ''extrapolator''}
   \<and> fst (validate_resilience_options
             \<lparr>resilience_options = [(''foo'', PyInt 1)], emitted = []\<rparr>) =
       Inl (ValueError [Lit (''Unsupported value '' @ [CHR 0x27]), Fmt (PyStr ''foo''),
                        Lit ''' for resilience.''])
   \<and> fst ` set [(''extrapolator'', PyStr ''Bogus'')]
        \<subseteq> {''noise_amplifier'', ''noise_factors'', ''extrapolator''}
   \<and> fst (validate_resilience_options
             \<lparr>resilience_options = [(''extrapolator'', PyStr ''Bogus'')], emitted = []\<rparr>)
        \<noteq> Inl (unsupported_option ''foo'')"
  using unsupported_key_rejected
          [of "\<lparr>resilience_options = [(''foo'', PyInt 1)], emitted = []\<rparr>"]
        unsupported_key_rejected
          [of "\<lparr>resilience_options = [(''extrapolator'', PyStr ''Bogus'')], emitted = []\<rparr>"]
  by (simp add: Cons_eq_append_conv)

text \<open>
  C1 (as amended). Let the key \<open>extrapolator\<close> be absent or bound to a value outside
  the four extrapolator names. Then the call fails with a \<open>ValueError\<close>. When the
  keys are all supported and the resolved noise amplifier is legal, so that the extrapolator
  check is reached, the error is the one of that check: its message states the offending
  value, which is \<open>None\<close> for an absent key (the default \<open>LinearExtrapolator\<close> is not
  applied), and lists the four legal values. Otherwise the error is that of the earlier
  check: with an unsupported key, the error of the key loop naming the first such key; with
  the keys all supported and the resolved noise amplifier outside its four names, the
  error of the noise amplifier check stating that value.
\<close>

theorem unsupported_extrapolator_rejected:
  assumes "''extrapolator'' \<notin> fst ` set (resilience_options s)
    \<or> py_get (resilience_options s) ''extrapolator''
        \<notin> {PyStr ''LinearExtrapolator'', PyStr ''QuadraticExtrapolator'',
            PyStr ''CubicExtrapolator'', PyStr ''QuarticExtrapolator''}"
  shows "(\<exists>m. fst (validate_resilience_options s) = Inl (ValueError m))
    \<and> (fst ` set (resilience_options s)
          \<subseteq> {''noise_amplifier'', ''noise_factors'', ''extrapolator''}
        \<and> py_or (py_get (resilience_options s) ''noise_amplifier'') (PyStr ''TwoQubitAmplifier'')
          \<in> {PyStr ''TwoQubitAmplifier'', PyStr ''GlobalFoldingAmplifier'',
              PyStr ''LocalFoldingAmplifier'', PyStr ''CxAmplifier''}
        \<longrightarrow> fst (validate_resilience_options s) =
              Inl (ValueError
                [Lit ''Unsupported value '', Fmt (py_get (resilience_options s) ''extrapolator''),
                 Lit '' for extrapolator. Supported values are '',
                 Fmt (PyTuple [PyStr ''LinearExtrapolator'', PyStr ''QuadraticExtrapolator'',
                               PyStr ''CubicExtrapolator'', PyStr ''QuarticExtrapolator''])]))
    \<and> (''extrapolator'' \<notin> fst ` set (resilience_options s)
        \<longrightarrow> py_get (resilience_options s) ''extrapolator'' = PyNone)
    \<and> (\<not> fst ` set (resilience_options s)
          \<subseteq> {''noise_amplifier'', ''noise_factors'', ''extrapolator''} \<longrightarrow>
        (\<exists>pre k post. map fst (resilience_options s) = pre @ k # post
           \<and> set pre \<subseteq> {''noise_amplifier'', ''noise_factors'', ''extrapolator''}
           \<and> k \<notin> {''noise_amplifier'', ''noise_factors'', ''extrapolator''}
           \<and> fst (validate_resilience_options s) =
               Inl (ValueError [Lit (''Unsupported value '' @ [CHR 0x27]), Fmt (PyStr k),
                                Lit ''' for resilience.''])))
    \<and> (fst ` set (resilience_options s)
          \<subseteq> {''noise_amplifier'', ''noise_factors'', ''extrapolator''}
        \<and> py_or (py_get (resilience_options s) ''noise_amplifier'') (PyStr ''TwoQubitAmplifier'')
          \<notin> {PyStr ''TwoQubitAmplifier'', PyStr ''GlobalFoldingAmplifier'',
              PyStr ''LocalFoldingAmplifier'', PyStr ''CxAmplifier''} \<longrightarrow>
        fst (validate_resilience_options s) =
          Inl (ValueError
            [Lit ''Unsupported value '',
             Fmt (py_or (py_get (resilience_options s) ''noise_amplifier'') (PyStr ''TwoQubitAmplifier'')),
             Lit '' for noise_amplifier. Supported values are '',
             Fmt (PyTuple [PyStr ''TwoQubitAmplifier'', PyStr ''GlobalFoldingAmplifier'',
                           PyStr ''LocalFoldingAmplifier'', PyStr ''CxAmplifier''])]))"
proof -
  have absent: "py_get (resilience_options s) ''extrapolator'' = PyNone"
    if "''extrapolator'' \<notin> fst ` set (resilience_options s)"
    using that by (rule py_get_absent)
  from assms have bad: "\<not> py_in (py_get (resilience_options s) ''extrapolator'') ExtrapolatorType"
    unfolding py_in_ExtrapolatorType using absent by auto
  have fails: "\<exists>m. fst (validate_resilience_options s) = Inl (ValueError m)"
  proof (cases "check_keys (map fst (resilience_options s))")
    case (Some e)
    from check_keys_Some [OF Some] obtain k where "e = unsupported_option k"
      by blast
    with validate_fst_bad_key [OF Some] show ?thesis
      by (simp add: unsupported_option_def)
  next
    case None
    then have "set (map fst (resilience_options s)) \<subseteq> set ResilienceSupportedOptions"
      by (simp only: check_keys_None)
    from validate_fst_keys_ok [OF this] bad show ?thesis
      by (simp add: unsupported_noise_amplifier_def unsupported_extrapolator_def)
  qed
  have reached: "fst (validate_resilience_options s) =
      Inl (ValueError
        [Lit ''Unsupported value '', Fmt (py_get (resilience_options s) ''extrapolator''),
         Lit '' for extrapolator. Supported values are '',
         Fmt (PyTuple [PyStr ''LinearExtrapolator'', PyStr ''QuadraticExtrapolator'',
                       PyStr ''CubicExtrapolator'', PyStr ''QuarticExtrapolator''])])"
    if keys: "fst ` set (resilience_options s)
                \<subseteq> {''noise_amplifier'', ''noise_factors'', ''extrapolator''}"
      and amp: "py_or (py_get (resilience_options s) ''noise_amplifier'')
                  (PyStr ''TwoQubitAmplifier'')
                \<in> {PyStr ''TwoQubitAmplifier'', PyStr ''GlobalFoldingAmplifier'',
                    PyStr ''LocalFoldingAmplifier'', PyStr ''CxAmplifier''}"
  proof -
    from keys have "set (map fst (resilience_options s)) \<subseteq> set ResilienceSupportedOptions"
      by (simp only: supported_names set_map)
    moreover from amp have
      "py_in (py_or (py_get (resilience_options s) ''noise_amplifier'')
                (PyStr ''TwoQubitAmplifier'')) NoiseAmplifierType"
      by (simp only: py_in_NoiseAmplifierType)
    ultimately show ?thesis
      using bad by (simp add: validate_fst_keys_ok unsupported_extrapolator_def
          ExtrapolatorType_def)
  qed
  from fails reached absent key_loop_rejects [of s] noise_amplifier_check_rejects [of s]
  show ?thesis
    by blast
qed

text \<open>
  The theorem at \<open>{"extrapolator": "Bogus"}\<close> (scenario 6 of the spec), at
  \<open>{"foo": 1}\<close>, which the key loop rejects first, and at
  \<open>{"noise_amplifier": "Bogus"}\<close>, which the noise amplifier check rejects first.
\<close>

theorem unsupported_extrapolator_rejected_witness:
  "py_get [(''extrapolator'', PyStr ''Bogus'')] ''extrapolator''
     \<notin> {PyStr ''LinearExtrapolator'', PyStr ''QuadraticExtrapolator'',
         PyStr ''CubicExtrapolator'', PyStr ''QuarticExtrapolator''}
   \<and> fst ` set [(''extrapolator'', PyStr ''Bogus'')]
        \<subseteq> {''noise_amplifier'', ''noise_factors'', ''extrapolator''}
   \<and> py_or (py_get [(''extrapolator'', PyStr ''Bogus'')] ''noise_amplifier'')
        (PyStr ''TwoQubitAmplifier'')
        \<in> {PyStr ''TwoQubitAmplifier'', PyStr ''GlobalFoldingAmplifier'',
            PyStr ''LocalFoldingAmplifier'', PyStr ''CxAmplifier''}
   \<and> fst (validate_resilience_options
             \<lparr>resilience_options = [(''extrapolator'', PyStr ''Bogus'')], emitted = []\<rparr>) =
       Inl (ValueError
         [Lit ''Unsupported value '', Fmt (PyStr ''Bogus''),
          Lit '' for extrapolator. Supported values are '',
          Fmt (PyTuple [PyStr ''LinearExtrapolator'', PyStr ''QuadraticExtrapolator'',
                        PyStr ''CubicExtrapolator'', PyStr ''QuarticExtrapolator''])])
   \<and> \<not> fst ` set [(''foo'', PyInt 1)]
        \<subseteq> {''noise_amplifier'', ''noise_factors'', ''extrapolator''}
   \<and> fst (validate_resilience_options
            \<lparr>resilience_options = [(''foo'', PyInt 1)], emitted = []\<rparr>) =
       Inl (ValueError [Lit (''Unsupported value '' @ [CHR 0x27]), Fmt (PyStr ''foo''),
                        Lit ''' for resilience.''])
   \<and> fst ` set [(''noise_amplifier'', PyStr ''Bogus'')]
        \<subseteq> {''noise_amplifier'', ''noise_factors'', ''extrapolator''}
   \<and> py_or (py_get [(''noise_amplifier'', PyStr ''Bogus'')] ''noise_amplifier'')
        (PyStr ''TwoQubitAmplifier'')
       \<notin> {PyStr ''TwoQubitAmplifier'', PyStr ''GlobalFoldingAmplifier'',
           PyStr ''LocalFoldingAmplifier'', PyStr ''CxAmplifier''}
   \<and> fst (validate_resilience_options
            \<lparr>resilience_options = [(''noise_amplifier'', PyStr ''Bogus'')], emitted = []\<rparr>) =
       Inl (ValueError
         [Lit ''Unsupported value '', Fmt (PyStr ''Bogus''),
          Lit '' for noise_amplifier. Supported values are '',
          Fmt (PyTuple [PyStr ''TwoQubitAmplifier'', PyStr ''GlobalFoldingAmplifier'',
                        PyStr ''LocalFoldingAmplifier'', PyStr ''CxAmplifier''])])"
  using unsupported_extrapolator_rejected
          [of "\<lparr>resilience_options = [(''extrapolator'', PyStr ''Bogus'')], emitted = []\<rparr>"]
        unsupported_extrapolator_rejected
          [of "\<lparr>resilience_options = [(''foo'', PyInt 1)], emitted = []\<rparr>"]
        unsupported_extrapolator_rejected
          [of "\<lparr>resilience_options = [(''noise_amplifier'', PyStr ''Bogus'')], emitted = []\<rparr>"]
  by (auto simp add: py_get_def py_or_def Cons_eq_append_conv)

text \<open>
  The claim as it is written fails at \<open>{"foo": 1}\<close> (scenario 4 of the spec): the key
  \<open>extrapolator\<close> is absent, and the error is that of the key loop, which names
  \<open>foo\<close> and lists no extrapolator.
\<close>

theorem unsupported_extrapolator_counterexample:
  "''extrapolator'' \<notin> fst ` set [(''foo'', PyInt 1)]
   \<and> fst (validate_resilience_options
             \<lparr>resilience_options = [(''foo'', PyInt 1)], emitted = []\<rparr>) =
       Inl (ValueError [Lit (''Unsupported value '' @ [CHR 0x27]), Fmt (PyStr ''foo''),
                        Lit ''' for resilience.''])
   \<and> fst (validate_resilience_options
             \<lparr>resilience_options = [(''foo'', PyInt 1)], emitted = []\<rparr>) \<noteq>
       Inl (ValueError
         [Lit ''Unsupported value '', Fmt (py_get [(''foo'', PyInt 1)] ''extrapolator''),
          Lit '' for extrapolator. Supported values are '',
          Fmt (PyTuple [PyStr ''LinearExtrapolator'', PyStr ''QuadraticExtrapolator'',
                        PyStr ''CubicExtrapolator'', PyStr ''QuarticExtrapolator''])])"
  by (simp add: validate_fst unsupported_option_def ResilienceSupportedOptions_def)

text \<open>
  C2 (as amended). On the empty dictionary the call emits no deprecation notice and
  leaves the state as it was, and it fails: the noise amplifier resolves to its default
  and passes, but the extrapolator is read from the dictionary, is \<open>None\<close>, and is
  rejected by the extrapolator check; the defaults of the dataclass are not consulted.
  On the dictionary of those defaults (noise amplifier \<open>None\<close>, noise factors
  \<open>(1, 3, 5)\<close>, extrapolator \<open>LinearExtrapolator\<close>) the call succeeds, without a
  notice and with no constraint on the number of noise factors.
\<close>

theorem validate_empty_fails:
  "validate_resilience_options \<lparr>resilience_options = [], emitted = w\<rparr> =
     (Inl (ValueError
        [Lit ''Unsupported value '', Fmt PyNone,
         Lit '' for extrapolator. Supported values are '',
         Fmt (PyTuple [PyStr ''LinearExtrapolator'', PyStr ''QuadraticExtrapolator'',
                       PyStr ''CubicExtrapolator'', PyStr ''QuarticExtrapolator''])]),
      \<lparr>resilience_options = [], emitted = w\<rparr>)
   \<and> validate_resilience_options \<lparr>resilience_options = ResilienceOptions_defaults, emitted = w\<rparr> =
     (Inr (), \<lparr>resilience_options = ResilienceOptions_defaults, emitted = w\<rparr>)"
proof -
  have "fst (validate_resilience_options \<lparr>resilience_options = [], emitted = w\<rparr>) =
     Inl (ValueError
        [Lit ''Unsupported value '', Fmt PyNone,
         Lit '' for extrapolator. Supported values are '',
         Fmt (PyTuple [PyStr ''LinearExtrapolator'', PyStr ''QuadraticExtrapolator'',
                       PyStr ''CubicExtrapolator'', PyStr ''QuarticExtrapolator''])])"
    by (simp add: validate_fst py_get_def py_or_def py_in_def NoiseAmplifierType_def
        ExtrapolatorType_def unsupported_extrapolator_def)
  moreover have "snd (validate_resilience_options \<lparr>resilience_options = [], emitted = w\<rparr>) =
     \<lparr>resilience_options = [], emitted = w\<rparr>"
    by (simp add: validate_snd py_get_def)
  moreover have
    "fst (validate_resilience_options
            \<lparr>resilience_options = ResilienceOptions_defaults, emitted = w\<rparr>) = Inr ()"
    by (simp add: validate_fst ResilienceOptions_defaults_def ResilienceSupportedOptions_def
        py_get_def py_or_def py_in_def NoiseAmplifierType_def ExtrapolatorType_def)
  moreover have
    "snd (validate_resilience_options
            \<lparr>resilience_options = ResilienceOptions_defaults, emitted = w\<rparr>) =
     \<lparr>resilience_options = ResilienceOptions_defaults, emitted = w\<rparr>"
    by (simp add: validate_snd ResilienceOptions_defaults_def py_get_def)
  ultimately show ?thesis
    by (simp only: prod_eq_iff fst_conv snd_conv simp_thms)
qed

text \<open>The theorem with nothing emitted before the call.\<close>

theorem validate_empty_fails_witness:
  "snd (validate_resilience_options \<lparr>resilience_options = [], emitted = []\<rparr>) =
     \<lparr>resilience_options = [], emitted = []\<rparr>
   \<and> (\<exists>m. fst (validate_resilience_options \<lparr>resilience_options = [], emitted = []\<rparr>) =
          Inl (ValueError m))
   \<and> fst (validate_resilience_options
            \<lparr>resilience_options =
               [(''noise_amplifier'', PyNone),
                (''noise_factors'', PyTuple [PyInt 1, PyInt 3, PyInt 5]),
                (''extrapolator'', PyStr ''LinearExtrapolator'')],
             emitted = []\<rparr>) = Inr ()"
  using validate_empty_fails [of "[]"]
  by (simp add: ResilienceOptions_defaults_def)

text \<open>
  The claim as it is written fails: the call on \<open>{}\<close> does not succeed, it raises the
  \<open>ValueError\<close> of the extrapolator check for the value \<open>None\<close>.
\<close>

theorem validate_empty_counterexample:
  "fst (validate_resilience_options \<lparr>resilience_options = [], emitted = []\<rparr>) \<noteq> Inr ()
   \<and> fst (validate_resilience_options \<lparr>resilience_options = [], emitted = []\<rparr>) =
       Inl (unsupported_extrapolator PyNone)"
  by (simp add: validate_fst py_get_def py_or_def py_in_def NoiseAmplifierType_def
      ExtrapolatorType_def)

text \<open>
  C3 (as amended). Let the noise amplifier be absent, \<open>None\<close>, or a value that is true
  in the sense of \<open>or\<close>; the values that are false without being \<open>None\<close> are left
  aside here. Then the noise amplifier that is checked is the supplied value exactly when
  the key is present and its value is not \<open>None\<close>, and the default
  \<open>TwoQubitAmplifier\<close> otherwise. The call fails with the \<open>ValueError\<close> of the noise
  amplifier check, whose message states the resolved value and lists the four legal
  values, if and only if all keys are supported and the resolved value is outside the four
  names; with an unsupported key it fails before that, with the error of the key loop
  naming the first such key. So every supplied value outside the four names is rejected,
  by one of these two errors, and an absent or \<open>None\<close> noise amplifier never raises the
  error of the noise amplifier check.
\<close>

theorem noise_amplifier_resolved:
  assumes "py_get (resilience_options s) ''noise_amplifier'' = PyNone
    \<or> truthy (py_get (resilience_options s) ''noise_amplifier'')"
  shows "(''noise_amplifier'' \<in> fst ` set (resilience_options s)
        \<and> py_get (resilience_options s) ''noise_amplifier'' \<noteq> PyNone \<longrightarrow>
      py_or (py_get (resilience_options s) ''noise_amplifier'') (PyStr ''TwoQubitAmplifier'') =
        py_get (resilience_options s) ''noise_amplifier'')
   \<and> (''noise_amplifier'' \<notin> fst ` set (resilience_options s)
        \<or> py_get (resilience_options s) ''noise_amplifier'' = PyNone \<longrightarrow>
      py_or (py_get (resilience_options s) ''noise_amplifier'') (PyStr ''TwoQubitAmplifier'') =
        PyStr ''TwoQubitAmplifier'')
   \<and> ((\<exists>v. fst (validate_resilience_options s) = Inl (unsupported_noise_amplifier v)) \<longleftrightarrow>
        fst ` set (resilience_options s)
          \<subseteq> {''noise_amplifier'', ''noise_factors'', ''extrapolator''}
        \<and> py_or (py_get (resilience_options s) ''noise_amplifier'') (PyStr ''TwoQubitAmplifier'')
          \<notin> {PyStr ''TwoQubitAmplifier'', PyStr ''GlobalFoldingAmplifier'',
              PyStr ''LocalFoldingAmplifier'', PyStr ''CxAmplifier''})
   \<and> (fst ` set (resilience_options s)
          \<subseteq> {''noise_amplifier'', ''noise_factors'', ''extrapolator''}
        \<and> py_or (py_get (resilience_options s) ''noise_amplifier'') (PyStr ''TwoQubitAmplifier'')
          \<notin> {PyStr ''TwoQubitAmplifier'', PyStr ''GlobalFoldingAmplifier'',
              PyStr ''LocalFoldingAmplifier'', PyStr ''CxAmplifier''} \<longrightarrow>
        fst (validate_resilience_options s) =
          Inl (ValueError
            [Lit ''Unsupported value '',
             Fmt (py_or (py_get (resilience_options s) ''noise_amplifier'') (PyStr ''TwoQubitAmplifier'')),
             Lit '' for noise_amplifier. Supported values are '',
             Fmt (PyTuple [PyStr ''TwoQubitAmplifier'', PyStr ''GlobalFoldingAmplifier'',
                           PyStr ''LocalFoldingAmplifier'', PyStr ''CxAmplifier''])]))
   \<and> (\<not> fst ` set (resilience_options s)
          \<subseteq> {''noise_amplifier'', ''noise_factors'', ''extrapolator''} \<longrightarrow>
        (\<exists>pre k post. map fst (resilience_options s) = pre @ k # post
           \<and> set pre \<subseteq> {''noise_amplifier'', ''noise_factors'', ''extrapolator''}
           \<and> k \<notin> {''noise_amplifier'', ''noise_factors'', ''extrapolator''}
           \<and> fst (validate_resilience_options s) =
               Inl (ValueError [Lit (''Unsupported value '' @ [CHR 0x27]), Fmt (PyStr k),
                                Lit ''' for resilience.''])))
   \<and> (''noise_amplifier'' \<in> fst ` set (resilience_options s)
        \<and> py_get (resilience_options s) ''noise_amplifier'' \<noteq> PyNone
        \<and> py_get (resilience_options s) ''noise_amplifier''
          \<notin> {PyStr ''TwoQubitAmplifier'', PyStr ''GlobalFoldingAmplifier'',
              PyStr ''LocalFoldingAmplifier'', PyStr ''CxAmplifier''} \<longrightarrow>
      fst (validate_resilience_options s) =
        Inl (unsupported_noise_amplifier (py_get (resilience_options s) ''noise_amplifier''))
      \<or> (\<exists>k. k \<notin> {''noise_amplifier'', ''noise_factors'', ''extrapolator''}
            \<and> fst (validate_resilience_options s) = Inl (unsupported_option k)))
   \<and> (''noise_amplifier'' \<notin> fst ` set (resilience_options s)
        \<or> py_get (resilience_options s) ''noise_amplifier'' = PyNone \<longrightarrow>
      (\<forall>v. fst (validate_resilience_options s) \<noteq> Inl (unsupported_noise_amplifier v)))"
  (is "?A \<and> ?B \<and> ?C \<and> ?D \<and> ?E \<and> ?F \<and> ?G")
proof -
  let ?d = "resilience_options s"
  let ?eff = "py_or (py_get ?d ''noise_amplifier'') (PyStr ''TwoQubitAmplifier'')"
  have keys_iff: "fst ` set ?d \<subseteq> {''noise_amplifier'', ''noise_factors'', ''extrapolator''}
      \<longleftrightarrow> set (map fst ?d) \<subseteq> set ResilienceSupportedOptions"
    by (simp only: supported_names set_map)
  have eff_iff: "?eff \<notin> {PyStr ''TwoQubitAmplifier'', PyStr ''GlobalFoldingAmplifier'',
              PyStr ''LocalFoldingAmplifier'', PyStr ''CxAmplifier''}
      \<longleftrightarrow> \<not> py_in ?eff NoiseAmplifierType"
    by (simp only: py_in_NoiseAmplifierType)
  have default_ok: "py_in (PyStr ''TwoQubitAmplifier'') NoiseAmplifierType"
    by (simp add: py_in_NoiseAmplifierType)
  have supplied: "?eff = py_get ?d ''noise_amplifier''"
    if "py_get ?d ''noise_amplifier'' \<noteq> PyNone"
    using that assms by (simp add: py_or_def)
  have default: "?eff = PyStr ''TwoQubitAmplifier''"
    if "''noise_amplifier'' \<notin> fst ` set ?d \<or> py_get ?d ''noise_amplifier'' = PyNone"
    using that by (auto simp: py_or_def py_get_absent)
  have A: ?A
    using supplied by blast
  have B: ?B
    using default by blast
  have raised: "fst (validate_resilience_options s) = Inl (unsupported_noise_amplifier ?eff)"
    if "set (map fst ?d) \<subseteq> set ResilienceSupportedOptions" "\<not> py_in ?eff NoiseAmplifierType"
    using that by (simp add: validate_fst_keys_ok)
  have only: "set (map fst ?d) \<subseteq> set ResilienceSupportedOptions
      \<and> \<not> py_in ?eff NoiseAmplifierType"
    if "fst (validate_resilience_options s) = Inl (unsupported_noise_amplifier v)" for v
  proof -
    from validate_Inl_cases [OF that] show ?thesis
      by (auto dest: check_keys_Some)
  qed
  have C: ?C
    unfolding keys_iff eff_iff using raised only by blast
  have D: ?D
    by (rule noise_amplifier_check_rejects)
  have E: ?E
    by (rule key_loop_rejects)
  have F: ?F
  proof (intro impI, elim conjE)
    assume present: "py_get ?d ''noise_amplifier'' \<noteq> PyNone"
      and out: "py_get ?d ''noise_amplifier''
          \<notin> {PyStr ''TwoQubitAmplifier'', PyStr ''GlobalFoldingAmplifier'',
              PyStr ''LocalFoldingAmplifier'', PyStr ''CxAmplifier''}"
    from supplied [OF present] have eff: "?eff = py_get ?d ''noise_amplifier''" .
    with out have bad: "\<not> py_in ?eff NoiseAmplifierType"
      by (simp only: py_in_NoiseAmplifierType not_False_eq_True)
    show "fst (validate_resilience_options s) =
        Inl (unsupported_noise_amplifier (py_get ?d ''noise_amplifier''))
      \<or> (\<exists>k. k \<notin> {''noise_amplifier'', ''noise_factors'', ''extrapolator''}
            \<and> fst (validate_resilience_options s) = Inl (unsupported_option k))"
    proof (cases "check_keys (map fst ?d)")
      case (Some e)
      from check_keys_Some [OF Some] obtain k where
        "k \<notin> set ResilienceSupportedOptions" "e = unsupported_option k"
        by blast
      with validate_fst_bad_key [OF Some] show ?thesis
        unfolding supported_names by blast
    next
      case None
      then have "set (map fst ?d) \<subseteq> set ResilienceSupportedOptions"
        by (simp only: check_keys_None)
      from raised [OF this bad] eff show ?thesis
        by simp
    qed
  qed
  have G: ?G
  proof (intro impI allI notI)
    fix v
    assume "''noise_amplifier'' \<notin> fst ` set ?d \<or> py_get ?d ''noise_amplifier'' = PyNone"
    then have "?eff = PyStr ''TwoQubitAmplifier''"
      by (rule default)
    with default_ok have "py_in ?eff NoiseAmplifierType"
      by simp
    moreover assume "fst (validate_resilience_options s) = Inl (unsupported_noise_amplifier v)"
    ultimately show False
      using only by blast
  qed
  from A B C D E F G show ?thesis
    by (intro conjI)
qed

text \<open>
  The theorem at \<open>{"noise_amplifier": "Bogus"}\<close> (scenario 5 of the spec), whose value
  is kept and rejected by the noise amplifier check; at \<open>{"noise_amplifier": None}\<close>,
  which resolves to the default and fails later, at the extrapolator; and at
  \<open>{"noise_amplifier": "Bogus", "foo": 1}\<close>, which the key loop rejects.
\<close>

theorem noise_amplifier_resolved_witness:
  "truthy (py_get [(''noise_amplifier'', PyStr ''Bogus'')] ''noise_amplifier'')
   \<and> ''noise_amplifier'' \<in> fst ` set [(''noise_amplifier'', PyStr ''Bogus'')]
   \<and> py_get [(''noise_amplifier'', PyStr ''Bogus'')] ''noise_amplifier'' \<noteq> PyNone
   \<and> py_get [(''noise_amplifier'', PyStr ''Bogus'')] ''noise_amplifier''
       \<notin> {PyStr ''TwoQubitAmplifier'', PyStr ''GlobalFoldingAmplifier'',
           PyStr ''LocalFoldingAmplifier'', PyStr ''CxAmplifier''}
   \<and> fst ` set [(''noise_amplifier'', PyStr ''Bogus'')]
        \<subseteq> {''noise_amplifier'', ''noise_factors'', ''extrapolator''}
   \<and> fst (validate_resilience_options
             \<lparr>resilience_options = [(''noise_amplifier'', PyStr ''Bogus'')], emitted = []\<rparr>) =
        Inl (ValueError
          [Lit ''Unsupported value '', Fmt (PyStr ''Bogus''),
           Lit '' for noise_amplifier. Supported values are '',
           Fmt (PyTuple [PyStr ''TwoQubitAmplifier'', PyStr ''GlobalFoldingAmplifier'',
                         PyStr ''LocalFoldingAmplifier'', PyStr ''CxAmplifier''])])
   \<and> py_get [(''noise_amplifier'', PyNone)] ''noise_amplifier'' = PyNone
   \<and> py_or (py_get [(''noise_amplifier'', PyNone)] ''noise_amplifier'')
        (PyStr ''TwoQubitAmplifier'') = PyStr ''TwoQubitAmplifier''
   \<and> fst (validate_resilience_options
             \<lparr>resilience_options = [(''noise_amplifier'', PyNone)], emitted = []\<rparr>) \<noteq>
        Inl (unsupported_noise_amplifier PyNone)
   \<and> truthy (py_get [(''noise_amplifier'', PyStr ''Bogus''), (''foo'', PyInt 1)]
               ''noise_amplifier'')
   \<and> \<not> fst ` set [(''noise_amplifier'', PyStr ''Bogus''), (''foo'', PyInt 1)]
        \<subseteq> {''noise_amplifier'', ''noise_factors'', ''extrapolator''}
   \<and> fst (validate_resilience_options
             \<lparr>resilience_options = [(''noise_amplifier'', PyStr ''Bogus''), (''foo'', PyInt 1)],
              emitted = []\<rparr>) =
        Inl (ValueError [Lit (''Unsupported value '' @ [CHR 0x27]), Fmt (PyStr ''foo''),
                         Lit ''' for resilience.''])"
  using noise_amplifier_resolved
          [of "\<lparr>resilience_options = [(''noise_amplifier'', PyStr ''Bogus'')], emitted = []\<rparr>"]
        noise_amplifier_resolved
          [of "\<lparr>resilience_options = [(''noise_amplifier'', PyNone)], emitted = []\<rparr>"]
        noise_amplifier_resolved
          [of "\<lparr>resilience_options =
                 [(''noise_amplifier'', PyStr ''Bogus''), (''foo'', PyInt 1)],
               emitted = []\<rparr>"]
  by (auto simp add: py_get_def py_or_def Cons_eq_append_conv)

text \<open>
  The claim as it is written fails at \<open>{"noise_amplifier": "Bogus", "foo": 1}\<close>: the
  resolved value is outside the four names, yet the call does not fail with the error of
  the noise amplifier check but, before it, with the error of the key loop.
\<close>

theorem noise_amplifier_resolved_counterexample:
  "py_or (py_get [(''noise_amplifier'', PyStr ''Bogus''), (''foo'', PyInt 1)]
               ''noise_amplifier'') (PyStr ''TwoQubitAmplifier'')
       \<notin> {PyStr ''TwoQubitAmplifier'', PyStr ''GlobalFoldingAmplifier'',
           PyStr ''LocalFoldingAmplifier'', PyStr ''CxAmplifier''}
   \<and> fst (validate_resilience_options
             \<lparr>resilience_options = [(''noise_amplifier'', PyStr ''Bogus''), (''foo'', PyInt 1)],
              emitted = []\<rparr>) = Inl (unsupported_option ''foo'')
   \<and> fst (validate_resilience_options
             \<lparr>resilience_options = [(''noise_amplifier'', PyStr ''Bogus''), (''foo'', PyInt 1)],
              emitted = []\<rparr>) \<noteq> Inl (unsupported_noise_amplifier (PyStr ''Bogus''))"
  by (simp add: validate_fst py_get_def py_or_def ResilienceSupportedOptions_def)

text \<open>
  C5 (as amended). Let the extrapolator be \<open>QuarticExtrapolator\<close> and the supplied
  noise factors have a length \<open>n\<close>. When \<open>n < 5\<close> the call fails with a
  \<open>ValueError\<close>. When the keys are all supported and the resolved noise amplifier is
  legal, so that the length check is reached, the failure for \<open>n < 5\<close> is the quartic
  one (``QuarticExtrapolator requires at least 5 noise_factors.''), and for \<open>n \<ge> 5\<close> the
  check passes and the call succeeds. The quartic error is raised in no other case.
  When an earlier check rejects the dictionary, the error is that check's: with an
  unsupported key, the error of the key loop naming the first such key; with the keys all
  supported and the resolved noise amplifier outside its four names, the error of the
  noise amplifier check stating that value.
\<close>

theorem quartic_needs_five_noise_factors:
  assumes "py_get (resilience_options s) ''extrapolator'' = PyStr ''QuarticExtrapolator''"
    and "py_len (py_get (resilience_options s) ''noise_factors'') = Inr n"
  shows "(n < 5 \<longrightarrow> (\<exists>m. fst (validate_resilience_options s) = Inl (ValueError m)))
    \<and> (fst ` set (resilience_options s)
          \<subseteq> {''noise_amplifier'', ''noise_factors'', ''extrapolator''}
        \<and> py_or (py_get (resilience_options s) ''noise_amplifier'') (PyStr ''TwoQubitAmplifier'')
          \<in> {PyStr ''TwoQubitAmplifier'', PyStr ''GlobalFoldingAmplifier'',
              PyStr ''LocalFoldingAmplifier'', PyStr ''CxAmplifier''}
        \<longrightarrow> fst (validate_resilience_options s) =
              (if n < 5
               then Inl (ValueError
                      [Lit ''QuarticExtrapolator requires at least 5 noise_factors.''])
               else Inr ()))
    \<and> (fst (validate_resilience_options s) = Inl quartic_insufficient \<longrightarrow> n < 5)
    \<and> (\<not> fst ` set (resilience_options s)
          \<subseteq> {''noise_amplifier'', ''noise_factors'', ''extrapolator''} \<longrightarrow>
        (\<exists>pre k post. map fst (resilience_options s) = pre @ k # post
           \<and> set pre \<subseteq> {''noise_amplifier'', ''noise_factors'', ''extrapolator''}
           \<and> k \<notin> {''noise_amplifier'', ''noise_factors'', ''extrapolator''}
           \<and> fst (validate_resilience_options s) =
               Inl (ValueError [Lit (''Unsupported value '' @ [CHR 0x27]), Fmt (PyStr k),
                                Lit ''' for resilience.''])))
    \<and> (fst ` set (resilience_options s)
          \<subseteq> {''noise_amplifier'', ''noise_factors'', ''extrapolator''}
        \<and> py_or (py_get (resilience_options s) ''noise_amplifier'') (PyStr ''TwoQubitAmplifier'')
          \<notin> {PyStr ''TwoQubitAmplifier'', PyStr ''GlobalFoldingAmplifier'',
              PyStr ''LocalFoldingAmplifier'', PyStr ''CxAmplifier''} \<longrightarrow>
        fst (validate_resilience_options s) =
          Inl (ValueError
            [Lit ''Unsupported value '',
             Fmt (py_or (py_get (resilience_options s) ''noise_amplifier'') (PyStr ''TwoQubitAmplifier'')),
             Lit '' for noise_amplifier. Supported values are '',
             Fmt (PyTuple [PyStr ''TwoQubitAmplifier'', PyStr ''GlobalFoldingAmplifier'',
                           PyStr ''LocalFoldingAmplifier'', PyStr ''CxAmplifier''])]))"
proof -
  let ?d = "resilience_options s"
  let ?eff = "py_or (py_get ?d ''noise_amplifier'') (PyStr ''TwoQubitAmplifier'')"
  from assms(1) have ext: "py_in (py_get ?d ''extrapolator'') ExtrapolatorType"
    by (simp add: py_in_ExtrapolatorType)
  have reached: "fst (validate_resilience_options s) =
      (if n < 5 then Inl quartic_insufficient else Inr ())"
    if "set (map fst ?d) \<subseteq> set ResilienceSupportedOptions" "py_in ?eff NoiseAmplifierType"
    using that ext assms by (simp add: validate_fst_keys_ok)
  have fails: "\<exists>m. fst (validate_resilience_options s) = Inl (ValueError m)" if "n < 5"
  proof (cases "check_keys (map fst ?d)")
    case (Some e)
    from check_keys_Some [OF Some] obtain k where "e = unsupported_option k"
      by blast
    with validate_fst_bad_key [OF Some] show ?thesis
      by (simp add: unsupported_option_def)
  next
    case None
    then have keys: "set (map fst ?d) \<subseteq> set ResilienceSupportedOptions"
      by (simp only: check_keys_None)
    show ?thesis
    proof (cases "py_in ?eff NoiseAmplifierType")
      case True
      from reached [OF keys True] that show ?thesis
        by (simp add: quartic_insufficient_def)
    next
      case False
      with keys show ?thesis
        by (simp add: validate_fst_keys_ok unsupported_noise_amplifier_def)
    qed
  qed
  have only: "n < 5" if "fst (validate_resilience_options s) = Inl quartic_insufficient"
    using validate_Inl_cases [OF that] assms
    by (auto dest: check_keys_Some)
  have "fst (validate_resilience_options s) =
      (if n < 5
       then Inl (ValueError [Lit ''QuarticExtrapolator requires at least 5 noise_factors.''])
       else Inr ())"
    if "fst ` set ?d \<subseteq> {''noise_amplifier'', ''noise_factors'', ''extrapolator''}"
      and "?eff \<in> {PyStr ''TwoQubitAmplifier'', PyStr ''GlobalFoldingAmplifier'',
              PyStr ''LocalFoldingAmplifier'', PyStr ''CxAmplifier''}"
  proof -
    from that(1) have "set (map fst ?d) \<subseteq> set ResilienceSupportedOptions"
      by (simp only: supported_names set_map)
    moreover from that(2) have "py_in ?eff NoiseAmplifierType"
      by (simp only: py_in_NoiseAmplifierType)
    ultimately show ?thesis
      using reached by (simp add: quartic_insufficient_def)
  qed
  with fails only key_loop_rejects [of s] noise_amplifier_check_rejects [of s]
  show ?thesis
    by blast
qed

text \<open>
  The theorem at \<open>{"extrapolator": "QuarticExtrapolator", "noise_factors": [1, 2, 3]}\<close>
  (scenario 2 of the spec), at the same dictionary with five noise factors, and at the
  first dictionary with the extra key \<open>foo\<close> and with the noise amplifier \<open>Bogus\<close>,
  which the key loop and the noise amplifier check reject first.
\<close>

theorem quartic_needs_five_noise_factors_witness:
  "py_get [(''extrapolator'', PyStr ''QuarticExtrapolator''),
           (''noise_factors'', PyList [PyInt 1, PyInt 2, PyInt 3])] ''extrapolator''
     = PyStr ''QuarticExtrapolator''
   \<and> py_len (py_get [(''extrapolator'', PyStr ''QuarticExtrapolator''),
                    (''noise_factors'', PyList [PyInt 1, PyInt 2, PyInt 3])] ''noise_factors'')
     = Inr 3
   \<and> fst (validate_resilience_options
            \<lparr>resilience_options =
               [(''extrapolator'', PyStr ''QuarticExtrapolator''),
                (''noise_factors'', PyList [PyInt 1, PyInt 2, PyInt 3])],
             emitted = []\<rparr>) =
       Inl (ValueError [Lit ''QuarticExtrapolator requires at least 5 noise_factors.''])
   \<and> py_len (py_get [(''extrapolator'', PyStr ''QuarticExtrapolator''),
                    (''noise_factors'', PyList [PyInt 1, PyInt 2, PyInt 3, PyInt 4, PyInt 5])]
               ''noise_factors'')
     = Inr 5
   \<and> fst (validate_resilience_options
            \<lparr>resilience_options =
               [(''extrapolator'', PyStr ''QuarticExtrapolator''),
                (''noise_factors'', PyList [PyInt 1, PyInt 2, PyInt 3, PyInt 4, PyInt 5])],
             emitted = []\<rparr>) = Inr ()
   \<and> \<not> fst ` set [(''extrapolator'', PyStr ''QuarticExtrapolator''),
                (''noise_factors'', PyList [PyInt 1, PyInt 2, PyInt 3]),
                (''foo'', PyInt 1)]
        \<subseteq> {''noise_amplifier'', ''noise_factors'', ''extrapolator''}
   \<and> fst (validate_resilience_options
            \<lparr>resilience_options = [(''extrapolator'', PyStr ''QuarticExtrapolator''),
                (''noise_factors'', PyList [PyInt 1, PyInt 2, PyInt 3]),
                (''foo'', PyInt 1)], emitted = []\<rparr>) =
       Inl (ValueError [Lit (''Unsupported value '' @ [CHR 0x27]), Fmt (PyStr ''foo''),
                        Lit ''' for resilience.''])
   \<and> fst ` set [(''noise_amplifier'', PyStr ''Bogus''),
                (''extrapolator'', PyStr ''QuarticExtrapolator''),
                (''noise_factors'', PyList [PyInt 1, PyInt 2, PyInt 3])]
        \<subseteq> {''noise_amplifier'', ''noise_factors'', ''extrapolator''}
   \<and> py_or (py_get [(''noise_amplifier'', PyStr ''Bogus''),
                (''extrapolator'', PyStr ''QuarticExtrapolator''),
                (''noise_factors'', PyList [PyInt 1, PyInt 2, PyInt 3])] ''noise_amplifier'')
        (PyStr ''TwoQubitAmplifier'')
       \<notin> {PyStr ''TwoQubitAmplifier'', PyStr ''GlobalFoldingAmplifier'',
           PyStr ''LocalFoldingAmplifier'', PyStr ''CxAmplifier''}
   \<and> fst (validate_resilience_options
            \<lparr>resilience_options = [(''noise_amplifier'', PyStr ''Bogus''),
                (''extrapolator'', PyStr ''QuarticExtrapolator''),
                (''noise_factors'', PyList [PyInt 1, PyInt 2, PyInt 3])], emitted = []\<rparr>) =
       Inl (ValueError
         [Lit ''Unsupported value '', Fmt (PyStr ''Bogus''),
          Lit '' for noise_amplifier. Supported values are '',
          Fmt (PyTuple [PyStr ''TwoQubitAmplifier'', PyStr ''GlobalFoldingAmplifier'',
                        PyStr ''LocalFoldingAmplifier'', PyStr ''CxAmplifier''])])"
  using quartic_needs_five_noise_factors
          [of "\<lparr>resilience_options =
                 [(''extrapolator'', PyStr ''QuarticExtrapolator''),
                  (''noise_factors'', PyList [PyInt 1, PyInt 2, PyInt 3])],
               emitted = []\<rparr>" 3]
        quartic_needs_five_noise_factors
          [of "\<lparr>resilience_options =
                 [(''extrapolator'', PyStr ''QuarticExtrapolator''),
                  (''noise_factors'', PyList [PyInt 1, PyInt 2, PyInt 3, PyInt 4, PyInt 5])],
               emitted = []\<rparr>" 5]
        quartic_needs_five_noise_factors
          [of "\<lparr>resilience_options = [(''extrapolator'', PyStr ''QuarticExtrapolator''),
                (''noise_factors'', PyList [PyInt 1, PyInt 2, PyInt 3]),
                (''foo'', PyInt 1)], emitted = []\<rparr>" 3]
        quartic_needs_five_noise_factors
          [of "\<lparr>resilience_options = [(''noise_amplifier'', PyStr ''Bogus''),
                (''extrapolator'', PyStr ''QuarticExtrapolator''),
                (''noise_factors'', PyList [PyInt 1, PyInt 2, PyInt 3])], emitted = []\<rparr>" 3]
  by (auto simp add: py_get_def py_or_def Cons_eq_append_conv)

text \<open>
  The claim as it is written fails when an earlier check rejects the dictionary: with
  three noise factors and the extra key \<open>foo\<close> the error is that of the key loop, and
  with three noise factors and the noise amplifier \<open>Bogus\<close> it is that of the noise
  amplifier check.
\<close>

theorem quartic_needs_five_noise_factors_counterexample:
  "py_get [(''extrapolator'', PyStr ''QuarticExtrapolator''),
           (''noise_factors'', PyList [PyInt 1, PyInt 2, PyInt 3]),
           (''foo'', PyInt 1)] ''extrapolator'' = PyStr ''QuarticExtrapolator''
   \<and> py_len (py_get [(''extrapolator'', PyStr ''QuarticExtrapolator''),
                    (''noise_factors'', PyList [PyInt 1, PyInt 2, PyInt 3]),
                    (''foo'', PyInt 1)] ''noise_factors'') = Inr 3
   \<and> fst (validate_resilience_options
            \<lparr>resilience_options =
               [(''extrapolator'', PyStr ''QuarticExtrapolator''),
                (''noise_factors'', PyList [PyInt 1, PyInt 2, PyInt 3]),
                (''foo'', PyInt 1)],
             emitted = []\<rparr>) = Inl (unsupported_option ''foo'')
   \<and> unsupported_option ''foo'' \<noteq> quartic_insufficient
   \<and> fst (validate_resilience_options
            \<lparr>resilience_options =
               [(''noise_amplifier'', PyStr ''Bogus''),
                (''extrapolator'', PyStr ''QuarticExtrapolator''),
                (''noise_factors'', PyList [PyInt 1, PyInt 2, PyInt 3])],
             emitted = []\<rparr>) = Inl (unsupported_noise_amplifier (PyStr ''Bogus''))
   \<and> unsupported_noise_amplifier (PyStr ''Bogus'') \<noteq> quartic_insufficient"
  by (simp add: validate_fst py_get_def py_or_def py_in_def
      ResilienceSupportedOptions_def NoiseAmplifierType_def)

text \<open>
  C6 (as amended). Let the extrapolator be \<open>CubicExtrapolator\<close> and the supplied
  noise factors have a length \<open>n\<close>. When \<open>n < 4\<close> the call fails with a
  \<open>ValueError\<close>. When the keys are all supported and the resolved noise amplifier is
  legal, so that the length check is reached, the failure for \<open>n < 4\<close> is the cubic
  one (``CubicExtrapolator requires at least 4 noise_factors.''), and for \<open>n \<ge> 4\<close> the
  check passes and the call returns with no error. The cubic error is raised in no other case.
  When an earlier check rejects the dictionary, the error is that check's: with an
  unsupported key, the error of the key loop naming the first such key; with the keys all
  supported and the resolved noise amplifier outside its four names, the error of the
  noise amplifier check stating that value.
\<close>

theorem cubic_needs_four_noise_factors:
  assumes "py_get (resilience_options s) ''extrapolator'' = PyStr ''CubicExtrapolator''"
    and "py_len (py_get (resilience_options s) ''noise_factors'') = Inr n"
  shows "(n < 4 \<longrightarrow> (\<exists>m. fst (validate_resilience_options s) = Inl (ValueError m)))
    \<and> (fst ` set (resilience_options s)
          \<subseteq> {''noise_amplifier'', ''noise_factors'', ''extrapolator''}
        \<and> py_or (py_get (resilience_options s) ''noise_amplifier'') (PyStr ''TwoQubitAmplifier'')
          \<in> {PyStr ''TwoQubitAmplifier'', PyStr ''GlobalFoldingAmplifier'',
              PyStr ''LocalFoldingAmplifier'', PyStr ''CxAmplifier''}
        \<longrightarrow> fst (validate_resilience_options s) =
              (if n < 4
               then Inl (ValueError
                      [Lit ''CubicExtrapolator requires at least 4 noise_factors.''])
               else Inr ()))
    \<and> (fst (validate_resilience_options s) = Inl cubic_insufficient \<longrightarrow> n < 4)
    \<and> (\<not> fst ` set (resilience_options s)
          \<subseteq> {''noise_amplifier'', ''noise_factors'', ''extrapolator''} \<longrightarrow>
        (\<exists>pre k post. map fst (resilience_options s) = pre @ k # post
           \<and> set pre \<subseteq> {''noise_amplifier'', ''noise_factors'', ''extrapolator''}
           \<and> k \<notin> {''noise_amplifier'', ''noise_factors'', ''extrapolator''}
           \<and> fst (validate_resilience_options s) =
               Inl (ValueError [Lit (''Unsupported value '' @ [CHR 0x27]), Fmt (PyStr k),
                                Lit ''' for resilience.''])))
    \<and> (fst ` set (resilience_options s)
          \<subseteq> {''noise_amplifier'', ''noise_factors'', ''extrapolator''}
        \<and> py_or (py_get (resilience_options s) ''noise_amplifier'') (PyStr ''TwoQubitAmplifier'')
          \<notin> {PyStr ''TwoQubitAmplifier'', PyStr ''GlobalFoldingAmplifier'',
              PyStr ''LocalFoldingAmplifier'', PyStr ''CxAmplifier''} \<longrightarrow>
        fst (validate_resilience_options s) =
          Inl (ValueError
            [Lit ''Unsupported value '',
             Fmt (py_or (py_get (resilience_options s) ''noise_amplifier'') (PyStr ''TwoQubitAmplifier'')),
             Lit '' for noise_amplifier. Supported values are '',
             Fmt (PyTuple [PyStr ''TwoQubitAmplifier'', PyStr ''GlobalFoldingAmplifier'',
                           PyStr ''LocalFoldingAmplifier'', PyStr ''CxAmplifier''])]))"
proof -
  let ?d = "resilience_options s"
  let ?eff = "py_or (py_get ?d ''noise_amplifier'') (PyStr ''TwoQubitAmplifier'')"
  from assms(1) have ext: "py_in (py_get ?d ''extrapolator'') ExtrapolatorType"
    by (simp add: py_in_ExtrapolatorType)
  have reached: "fst (validate_resilience_options s) =
      (if n < 4 then Inl cubic_insufficient else Inr ())"
    if "set (map fst ?d) \<subseteq> set ResilienceSupportedOptions" "py_in ?eff NoiseAmplifierType"
    using that ext assms by (simp add: validate_fst_keys_ok)
  have fails: "\<exists>m. fst (validate_resilience_options s) = Inl (ValueError m)" if "n < 4"
  proof (cases "check_keys (map fst ?d)")
    case (Some e)
    from check_keys_Some [OF Some] obtain k where "e = unsupported_option k"
      by blast
    with validate_fst_bad_key [OF Some] show ?thesis
      by (simp add: unsupported_option_def)
  next
    case None
    then have keys: "set (map fst ?d) \<subseteq> set ResilienceSupportedOptions"
      by (simp only: check_keys_None)
    show ?thesis
    proof (cases "py_in ?eff NoiseAmplifierType")
      case True
      from reached [OF keys True] that show ?thesis
        by (simp add: cubic_insufficient_def)
    next
      case False
      with keys show ?thesis
        by (simp add: validate_fst_keys_ok unsupported_noise_amplifier_def)
    qed
  qed
  have only: "n < 4" if "fst (validate_resilience_options s) = Inl cubic_insufficient"
    using validate_Inl_cases [OF that] assms
    by (auto dest: check_keys_Some)
  have "fst (validate_resilience_options s) =
      (if n < 4
       then Inl (ValueError [Lit ''CubicExtrapolator requires at least 4 noise_factors.''])
       else Inr ())"
    if "fst ` set ?d \<subseteq> {''noise_amplifier'', ''noise_factors'', ''extrapolator''}"
      and "?eff \<in> {PyStr ''TwoQubitAmplifier'', PyStr ''GlobalFoldingAmplifier'',
              PyStr ''LocalFoldingAmplifier'', PyStr ''CxAmplifier''}"
  proof -
    from that(1) have "set (map fst ?d) \<subseteq> set ResilienceSupportedOptions"
      by (simp only: supported_names set_map)
    moreover from that(2) have "py_in ?eff NoiseAmplifierType"
      by (simp only: py_in_NoiseAmplifierType)
    ultimately show ?thesis
      using reached by (simp add: cubic_insufficient_def)
  qed
  with fails only key_loop_rejects [of s] noise_amplifier_check_rejects [of s]
  show ?thesis
    by blast
qed

text \<open>
  The theorem at \<open>{"extrapolator": "CubicExtrapolator", "noise_factors": [1, 2, 3]}\<close>,
  which is rejected, and at
  \<open>{"extrapolator": "CubicExtrapolator", "noise_factors": [1, 2, 3, 4]}\<close> (scenario 3 of
  the spec), which validates with no error; and at the first dictionary with the extra key
  \<open>foo\<close> and with the noise amplifier \<open>Bogus\<close>, which the key loop and the noise
  amplifier check reject first.
\<close>

theorem cubic_needs_four_noise_factors_witness:
  "py_get [(''extrapolator'', PyStr ''CubicExtrapolator''),
           (''noise_factors'', PyList [PyInt 1, PyInt 2, PyInt 3])] ''extrapolator''
     = PyStr ''CubicExtrapolator''
   \<and> py_len (py_get [(''extrapolator'', PyStr ''CubicExtrapolator''),
                    (''noise_factors'', PyList [PyInt 1, PyInt 2, PyInt 3])] ''noise_factors'')
     = Inr 3
   \<and> fst (validate_resilience_options
            \<lparr>resilience_options =
               [(''extrapolator'', PyStr ''CubicExtrapolator''),
                (''noise_factors'', PyList [PyInt 1, PyInt 2, PyInt 3])],
             emitted = []\<rparr>) =
       Inl (ValueError [Lit ''CubicExtrapolator requires at least 4 noise_factors.''])
   \<and> py_len (py_get [(''extrapolator'', PyStr ''CubicExtrapolator''),
                    (''noise_factors'', PyList [PyInt 1, PyInt 2, PyInt 3, PyInt 4])]
               ''noise_factors'')
     = Inr 4
   \<and> fst (validate_resilience_options
            \<lparr>resilience_options =
               [(''extrapolator'', PyStr ''CubicExtrapolator''),
                (''noise_factors'', PyList [PyInt 1, PyInt 2, PyInt 3, PyInt 4])],
             emitted = []\<rparr>) = Inr ()
   \<and> \<not> fst ` set [(''extrapolator'', PyStr ''CubicExtrapolator''),
                (''noise_factors'', PyList [PyInt 1, PyInt 2, PyInt 3]),
                (''foo'', PyInt 1)]
        \<subseteq> {''noise_amplifier'', ''noise_factors'', ''extrapolator''}
   \<and> fst (validate_resilience_options
            \<lparr>resilience_options = [(''extrapolator'', PyStr ''CubicExtrapolator''),
                (''noise_factors'', PyList [PyInt 1, PyInt 2, PyInt 3]),
                (''foo'', PyInt 1)], emitted = []\<rparr>) =
       Inl (ValueError [Lit (''Unsupported value '' @ [CHR 0x27]), Fmt (PyStr ''foo''),
                        Lit ''' for resilience.''])
   \<and> fst ` set [(''noise_amplifier'', PyStr ''Bogus''),
                (''extrapolator'', PyStr ''CubicExtrapolator''),
                (''noise_factors'', PyList [PyInt 1, PyInt 2, PyInt 3])]
        \<subseteq> {''noise_amplifier'', ''noise_factors'', ''extrapolator''}
   \<and> py_or (py_get [(''noise_amplifier'', PyStr ''Bogus''),
                (''extrapolator'', PyStr ''CubicExtrapolator''),
                (''noise_factors'', PyList [PyInt 1, PyInt 2, PyInt 3])] ''noise_amplifier'')
        (PyStr ''TwoQubitAmplifier'')
       \<notin> {PyStr ''TwoQubitAmplifier'', PyStr ''GlobalFoldingAmplifier'',
           PyStr ''LocalFoldingAmplifier'', PyStr ''CxAmplifier''}
   \<and> fst (validate_resilience_options
            \<lparr>resilience_options = [(''noise_amplifier'', PyStr ''Bogus''),
                (''extrapolator'', PyStr ''CubicExtrapolator''),
                (''noise_factors'', PyList [PyInt 1, PyInt 2, PyInt 3])], emitted = []\<rparr>) =
       Inl (ValueError
         [Lit ''Unsupported value '', Fmt (PyStr ''Bogus''),
          Lit '' for noise_amplifier. Supported values are '',
          Fmt (PyTuple [PyStr ''TwoQubitAmplifier'', PyStr ''GlobalFoldingAmplifier'',
                        PyStr ''LocalFoldingAmplifier'', PyStr ''CxAmplifier''])])"
  using cubic_needs_four_noise_factors
          [of "\<lparr>resilience_options =
                 [(''extrapolator'', PyStr ''CubicExtrapolator''),
                  (''noise_factors'', PyList [PyInt 1, PyInt 2, PyInt 3])],
               emitted = []\<rparr>" 3]
        cubic_needs_four_noise_factors
          [of "\<lparr>resilience_options =
                 [(''extrapolator'', PyStr ''CubicExtrapolator''),
                  (''noise_factors'', PyList [PyInt 1, PyInt 2, PyInt 3, PyInt 4])],
               emitted = []\<rparr>" 4]
        cubic_needs_four_noise_factors
          [of "\<lparr>resilience_options = [(''extrapolator'', PyStr ''CubicExtrapolator''),
                (''noise_factors'', PyList [PyInt 1, PyInt 2, PyInt 3]),
                (''foo'', PyInt 1)], emitted = []\<rparr>" 3]
        cubic_needs_four_noise_factors
          [of "\<lparr>resilience_options = [(''noise_amplifier'', PyStr ''Bogus''),
                (''extrapolator'', PyStr ''CubicExtrapolator''),
                (''noise_factors'', PyList [PyInt 1, PyInt 2, PyInt 3])], emitted = []\<rparr>" 3]
  by (auto simp add: py_get_def py_or_def Cons_eq_append_conv)

text \<open>
  The claim as it is written fails when an earlier check rejects the dictionary: with
  three noise factors and the extra key \<open>foo\<close> the error is that of the key loop, and
  with three noise factors and the noise amplifier \<open>Bogus\<close> it is that of the noise
  amplifier check.
\<close>

theorem cubic_needs_four_noise_factors_counterexample:
  "py_get [(''extrapolator'', PyStr ''CubicExtrapolator''),
           (''noise_factors'', PyList [PyInt 1, PyInt 2, PyInt 3]),
           (''foo'', PyInt 1)] ''extrapolator'' = PyStr ''CubicExtrapolator''
   \<and> py_len (py_get [(''extrapolator'', PyStr ''CubicExtrapolator''),
                    (''noise_factors'', PyList [PyInt 1, PyInt 2, PyInt 3]),
                    (''foo'', PyInt 1)] ''noise_factors'') = Inr 3
   \<and> fst (validate_resilience_options
            \<lparr>resilience_options =
               [(''extrapolator'', PyStr ''CubicExtrapolator''),
                (''noise_factors'', PyList [PyInt 1, PyInt 2, PyInt 3]),
                (''foo'', PyInt 1)],
             emitted = []\<rparr>) = Inl (unsupported_option ''foo'')
   \<and> unsupported_option ''foo'' \<noteq> cubic_insufficient
   \<and> fst (validate_resilience_options
            \<lparr>resilience_options =
               [(''noise_amplifier'', PyStr ''Bogus''),
                (''extrapolator'', PyStr ''CubicExtrapolator''),
                (''noise_factors'', PyList [PyInt 1, PyInt 2, PyInt 3])],
             emitted = []\<rparr>) = Inl (unsupported_noise_amplifier (PyStr ''Bogus''))
   \<and> unsupported_noise_amplifier (PyStr ''Bogus'') \<noteq> cubic_insufficient"
  by (simp add: validate_fst py_get_def py_or_def py_in_def
      ResilienceSupportedOptions_def NoiseAmplifierType_def)

text \<open>
  C7. When the key \<open>noise_amplifier\<close> is present with a value other than \<open>None\<close>,
  the call emits exactly one deprecation notice: the state it leaves is the state it
  started in with that one notice appended, whatever the value is and whether the call
  then fails at the key loop, at a value check or at a length check, or succeeds; the
  notice is therefore out before any check. When the key is absent or bound to \<open>None\<close>
  the state is left as it was and no notice is emitted. The emission is no failure: a
  dictionary that passes the four checks is accepted, notice or not.
\<close>

theorem deprecation_notice_emitted_once:
  "(''noise_amplifier'' \<in> fst ` set (resilience_options s)
      \<and> py_get (resilience_options s) ''noise_amplifier'' \<noteq> PyNone \<longrightarrow>
        snd (validate_resilience_options s) =
          s\<lparr>emitted := emitted s @
             [\<lparr>msg = ''The 'noise_amplifier' resilience option is deprecated'',
               version = ''0.12.0'', period = ''1 month'',
               remedy = ''After the deprecation period, only local folding amplification ''
                 @ ''will be supported. ''
                 @ ''Refer to https://github.com/qiskit-community/prototype-zne ''
                 @ ''for global folding amplification in ZNE.''\<rparr>]\<rparr>)
   \<and> (''noise_amplifier'' \<notin> fst ` set (resilience_options s)
      \<or> py_get (resilience_options s) ''noise_amplifier'' = PyNone \<longrightarrow>
        snd (validate_resilience_options s) = s)
   \<and> (fst ` set (resilience_options s)
          \<subseteq> {''noise_amplifier'', ''noise_factors'', ''extrapolator''}
      \<and> py_or (py_get (resilience_options s) ''noise_amplifier'') (PyStr ''TwoQubitAmplifier'')
          \<in> {PyStr ''TwoQubitAmplifier'', PyStr ''GlobalFoldingAmplifier'',
              PyStr ''LocalFoldingAmplifier'', PyStr ''CxAmplifier''}
      \<and> (py_get (resilience_options s) ''extrapolator''
            \<in> {PyStr ''LinearExtrapolator'', PyStr ''QuadraticExtrapolator''}
          \<or> py_get (resilience_options s) ''extrapolator'' = PyStr ''CubicExtrapolator''
            \<and> (\<exists>n\<ge>4. py_len (py_get (resilience_options s) ''noise_factors'') = Inr n)
          \<or> py_get (resilience_options s) ''extrapolator'' = PyStr ''QuarticExtrapolator''
            \<and> (\<exists>n\<ge>5. py_len (py_get (resilience_options s) ''noise_factors'') = Inr n))
      \<longrightarrow> fst (validate_resilience_options s) = Inr ())"
  (is "?A \<and> ?B \<and> ?C")
proof -
  let ?d = "resilience_options s"
  have A: ?A
    by (simp add: validate_snd noise_amplifier_notice_def)
  have B: ?B
    by (auto simp: validate_snd py_get_absent)
  have C: ?C
  proof (intro impI, elim conjE)
    assume keys: "fst ` set ?d \<subseteq> {''noise_amplifier'', ''noise_factors'', ''extrapolator''}"
      and amp: "py_or (py_get ?d ''noise_amplifier'') (PyStr ''TwoQubitAmplifier'')
          \<in> {PyStr ''TwoQubitAmplifier'', PyStr ''GlobalFoldingAmplifier'',
              PyStr ''LocalFoldingAmplifier'', PyStr ''CxAmplifier''}"
      and ext: "py_get ?d ''extrapolator''
            \<in> {PyStr ''LinearExtrapolator'', PyStr ''QuadraticExtrapolator''}
          \<or> py_get ?d ''extrapolator'' = PyStr ''CubicExtrapolator''
            \<and> (\<exists>n\<ge>4. py_len (py_get ?d ''noise_factors'') = Inr n)
          \<or> py_get ?d ''extrapolator'' = PyStr ''QuarticExtrapolator''
            \<and> (\<exists>n\<ge>5. py_len (py_get ?d ''noise_factors'') = Inr n)"
    from keys have keys': "set (map fst ?d) \<subseteq> set ResilienceSupportedOptions"
      by (simp only: supported_names set_map)
    from amp have amp':
      "py_in (py_or (py_get ?d ''noise_amplifier'') (PyStr ''TwoQubitAmplifier''))
         NoiseAmplifierType"
      by (simp only: py_in_NoiseAmplifierType)
    from ext have ext': "py_in (py_get ?d ''extrapolator'') ExtrapolatorType"
      by (auto simp: py_in_ExtrapolatorType)
    from ext show "fst (validate_resilience_options s) = Inr ()"
      unfolding validate_fst_keys_ok [OF keys']
      using amp' ext' by auto
  qed
  from A B C show ?thesis
    by (intro conjI)
qed

text \<open>
  The theorem at \<open>{"noise_amplifier": "Bogus", "foo": 1}\<close>, where the notice is
  emitted although the key loop then rejects the dictionary; at
  \<open>{"noise_amplifier": "CxAmplifier", "extrapolator": "LinearExtrapolator"}\<close>, where the
  notice is emitted and the call succeeds; and at
  \<open>{"extrapolator": "LinearExtrapolator"}\<close>, where nothing is emitted.
\<close>

theorem deprecation_notice_emitted_once_witness:
  "''noise_amplifier'' \<in> fst ` set [(''noise_amplifier'', PyStr ''Bogus''), (''foo'', PyInt 1)]
   \<and> py_get [(''noise_amplifier'', PyStr ''Bogus''), (''foo'', PyInt 1)] ''noise_amplifier''
       \<noteq> PyNone
   \<and> emitted (snd (validate_resilience_options
         \<lparr>resilience_options = [(''noise_amplifier'', PyStr ''Bogus''), (''foo'', PyInt 1)],
          emitted = []\<rparr>)) = [noise_amplifier_notice]
   \<and> fst (validate_resilience_options
         \<lparr>resilience_options = [(''noise_amplifier'', PyStr ''Bogus''), (''foo'', PyInt 1)],
          emitted = []\<rparr>) = Inl (unsupported_option ''foo'')
   \<and> validate_resilience_options
         \<lparr>resilience_options =
            [(''noise_amplifier'', PyStr ''CxAmplifier''),
             (''extrapolator'', PyStr ''LinearExtrapolator'')],
          emitted = []\<rparr> =
       (Inr (),
        \<lparr>resilience_options =
            [(''noise_amplifier'', PyStr ''CxAmplifier''),
             (''extrapolator'', PyStr ''LinearExtrapolator'')],
         emitted = [noise_amplifier_notice]\<rparr>)
   \<and> ''noise_amplifier'' \<notin> fst ` set [(''extrapolator'', PyStr ''LinearExtrapolator'')]
   \<and> validate_resilience_options
         \<lparr>resilience_options = [(''extrapolator'', PyStr ''LinearExtrapolator'')],
          emitted = []\<rparr> =
       (Inr (),
        \<lparr>resilience_options = [(''extrapolator'', PyStr ''LinearExtrapolator'')],
         emitted = []\<rparr>)"
proof -
  have "fst (validate_resilience_options
         \<lparr>resilience_options = [(''noise_amplifier'', PyStr ''Bogus''), (''foo'', PyInt 1)],
          emitted = []\<rparr>) = Inl (unsupported_option ''foo'')"
    by (simp add: validate_fst ResilienceSupportedOptions_def)
  then show ?thesis
    using deprecation_notice_emitted_once
          [of "\<lparr>resilience_options =
                 [(''noise_amplifier'', PyStr ''Bogus''), (''foo'', PyInt 1)],
               emitted = []\<rparr>"]
        deprecation_notice_emitted_once
          [of "\<lparr>resilience_options =
                 [(''noise_amplifier'', PyStr ''CxAmplifier''),
                  (''extrapolator'', PyStr ''LinearExtrapolator'')],
               emitted = []\<rparr>"]
        deprecation_notice_emitted_once
          [of "\<lparr>resilience_options = [(''extrapolator'', PyStr ''LinearExtrapolator'')],
               emitted = []\<rparr>"]
    by (simp add: py_get_def py_or_def prod_eq_iff noise_amplifier_notice_def)
qed

text \<open>
  C8 (as amended). Let the extrapolator be \<open>QuarticExtrapolator\<close> or
  \<open>CubicExtrapolator\<close> and the key \<open>noise_factors\<close> be absent. Then the call fails,
  and never with one of the two errors about the number of noise factors. When the keys
  are all supported and the resolved noise amplifier is legal, the length check is
  reached, takes the length of \<open>None\<close>, and the call raises the \<open>TypeError\<close> of
  \<open>len\<close>, which is none of the validator's own \<open>ValueError\<close>s. Otherwise the error is
  that of the earlier check: with an unsupported key, the error of the key loop naming the
  first such key; with the keys all supported and the resolved noise amplifier outside its
  four names, the error of the noise amplifier check stating that value.
\<close>

theorem missing_noise_factors_raise_type_error:
  assumes "py_get (resilience_options s) ''extrapolator''
      \<in> {PyStr ''QuarticExtrapolator'', PyStr ''CubicExtrapolator''}"
    and "''noise_factors'' \<notin> fst ` set (resilience_options s)"
  shows "(fst ` set (resilience_options s)
          \<subseteq> {''noise_amplifier'', ''noise_factors'', ''extrapolator''}
        \<and> py_or (py_get (resilience_options s) ''noise_amplifier'') (PyStr ''TwoQubitAmplifier'')
          \<in> {PyStr ''TwoQubitAmplifier'', PyStr ''GlobalFoldingAmplifier'',
              PyStr ''LocalFoldingAmplifier'', PyStr ''CxAmplifier''}
        \<longrightarrow> fst (validate_resilience_options s) =
              Inl (TypeError [Lit (''object of type '' @ [CHR 0x27]), Lit ''NoneType'',
                              Lit ''' has no len()'']))
    \<and> (\<exists>e. fst (validate_resilience_options s) = Inl e)
    \<and> fst (validate_resilience_options s) \<noteq> Inl quartic_insufficient
    \<and> fst (validate_resilience_options s) \<noteq> Inl cubic_insufficient
    \<and> (\<forall>m k v w. TypeError m \<noteq> unsupported_option k
          \<and> TypeError m \<noteq> unsupported_noise_amplifier v
          \<and> TypeError m \<noteq> unsupported_extrapolator w
          \<and> TypeError m \<noteq> quartic_insufficient \<and> TypeError m \<noteq> cubic_insufficient)
    \<and> (\<not> fst ` set (resilience_options s)
          \<subseteq> {''noise_amplifier'', ''noise_factors'', ''extrapolator''} \<longrightarrow>
        (\<exists>pre k post. map fst (resilience_options s) = pre @ k # post
           \<and> set pre \<subseteq> {''noise_amplifier'', ''noise_factors'', ''extrapolator''}
           \<and> k \<notin> {''noise_amplifier'', ''noise_factors'', ''extrapolator''}
           \<and> fst (validate_resilience_options s) =
               Inl (ValueError [Lit (''Unsupported value '' @ [CHR 0x27]), Fmt (PyStr k),
                                Lit ''' for resilience.''])))
    \<and> (fst ` set (resilience_options s)
          \<subseteq> {''noise_amplifier'', ''noise_factors'', ''extrapolator''}
        \<and> py_or (py_get (resilience_options s) ''noise_amplifier'') (PyStr ''TwoQubitAmplifier'')
          \<notin> {PyStr ''TwoQubitAmplifier'', PyStr ''GlobalFoldingAmplifier'',
              PyStr ''LocalFoldingAmplifier'', PyStr ''CxAmplifier''} \<longrightarrow>
        fst (validate_resilience_options s) =
          Inl (ValueError
            [Lit ''Unsupported value '',
             Fmt (py_or (py_get (resilience_options s) ''noise_amplifier'') (PyStr ''TwoQubitAmplifier'')),
             Lit '' for noise_amplifier. Supported values are '',
             Fmt (PyTuple [PyStr ''TwoQubitAmplifier'', PyStr ''GlobalFoldingAmplifier'',
                           PyStr ''LocalFoldingAmplifier'', PyStr ''CxAmplifier''])]))"
proof -
  let ?d = "resilience_options s"
  let ?eff = "py_or (py_get ?d ''noise_amplifier'') (PyStr ''TwoQubitAmplifier'')"
  let ?err = "TypeError [Lit (''object of type '' @ [CHR 0x27]), Lit ''NoneType'',
                         Lit ''' has no len()'']"
  from assms(2) have nf: "py_get ?d ''noise_factors'' = PyNone"
    by (rule py_get_absent)
  then have len: "py_len (py_get ?d ''noise_factors'') = Inl ?err"
    by simp
  from assms(1) have ext: "py_in (py_get ?d ''extrapolator'') ExtrapolatorType"
    by (auto simp: py_in_ExtrapolatorType)
  have reached: "fst (validate_resilience_options s) = Inl ?err"
    if "set (map fst ?d) \<subseteq> set ResilienceSupportedOptions" "py_in ?eff NoiseAmplifierType"
    using assms(1) unfolding validate_fst_keys_ok [OF that(1)]
    using that(2) ext len by auto
  have fails: "\<exists>e. fst (validate_resilience_options s) = Inl e"
  proof (cases "check_keys (map fst ?d)")
    case (Some e)
    from validate_fst_bad_key [OF Some] show ?thesis
      by blast
  next
    case None
    then have keys: "set (map fst ?d) \<subseteq> set ResilienceSupportedOptions"
      by (simp only: check_keys_None)
    show ?thesis
    proof (cases "py_in ?eff NoiseAmplifierType")
      case True
      from reached [OF keys True] show ?thesis
        by blast
    next
      case False
      with keys show ?thesis
        by (simp add: validate_fst_keys_ok)
    qed
  qed
  have no_quartic: "fst (validate_resilience_options s) \<noteq> Inl quartic_insufficient"
  proof
    assume "fst (validate_resilience_options s) = Inl quartic_insufficient"
    from validate_Inl_cases [OF this] len show False
      by (auto dest: check_keys_Some)
  qed
  have no_cubic: "fst (validate_resilience_options s) \<noteq> Inl cubic_insufficient"
  proof
    assume "fst (validate_resilience_options s) = Inl cubic_insufficient"
    from validate_Inl_cases [OF this] len show False
      by (auto dest: check_keys_Some)
  qed
  have other: "\<forall>m k v w. TypeError m \<noteq> unsupported_option k
          \<and> TypeError m \<noteq> unsupported_noise_amplifier v
          \<and> TypeError m \<noteq> unsupported_extrapolator w
          \<and> TypeError m \<noteq> quartic_insufficient \<and> TypeError m \<noteq> cubic_insufficient"
    by (simp add: unsupported_option_def unsupported_noise_amplifier_def
        unsupported_extrapolator_def quartic_insufficient_def cubic_insufficient_def)
  have "fst (validate_resilience_options s) = Inl ?err"
    if "fst ` set ?d \<subseteq> {''noise_amplifier'', ''noise_factors'', ''extrapolator''}"
      and "?eff \<in> {PyStr ''TwoQubitAmplifier'', PyStr ''GlobalFoldingAmplifier'',
              PyStr ''LocalFoldingAmplifier'', PyStr ''CxAmplifier''}"
  proof -
    from that(1) have "set (map fst ?d) \<subseteq> set ResilienceSupportedOptions"
      by (simp only: supported_names set_map)
    moreover from that(2) have "py_in ?eff NoiseAmplifierType"
      by (simp only: py_in_NoiseAmplifierType)
    ultimately show ?thesis
      by (rule reached)
  qed
  with fails no_quartic no_cubic other key_loop_rejects [of s]
    noise_amplifier_check_rejects [of s]
  show ?thesis
    by blast
qed

text \<open>
  The theorem at \<open>{"extrapolator": "CubicExtrapolator"}\<close> and at
  \<open>{"extrapolator": "QuarticExtrapolator"}\<close>, and at the first dictionary with the
  extra key \<open>foo\<close> and with the noise amplifier \<open>Bogus\<close>, which the key loop and the
  noise amplifier check reject first.
\<close>

theorem missing_noise_factors_raise_type_error_witness:
  "py_get [(''extrapolator'', PyStr ''CubicExtrapolator'')] ''extrapolator''
     = PyStr ''CubicExtrapolator''
   \<and> ''noise_factors'' \<notin> fst ` set [(''extrapolator'', PyStr ''CubicExtrapolator'')]
   \<and> fst ` set [(''extrapolator'', PyStr ''CubicExtrapolator'')]
        \<subseteq> {''noise_amplifier'', ''noise_factors'', ''extrapolator''}
   \<and> fst (validate_resilience_options
            \<lparr>resilience_options = [(''extrapolator'', PyStr ''CubicExtrapolator'')],
             emitted = []\<rparr>) =
       Inl (TypeError [Lit (''object of type '' @ [CHR 0x27]), Lit ''NoneType'',
                       Lit ''' has no len()''])
   \<and> fst (validate_resilience_options
            \<lparr>resilience_options = [(''extrapolator'', PyStr ''QuarticExtrapolator'')],
             emitted = []\<rparr>) =
       Inl (TypeError [Lit (''object of type '' @ [CHR 0x27]), Lit ''NoneType'',
                       Lit ''' has no len()''])
   \<and> \<not> fst ` set [(''extrapolator'', PyStr ''CubicExtrapolator''), (''foo'', PyInt 1)]
        \<subseteq> {''noise_amplifier'', ''noise_factors'', ''extrapolator''}
   \<and> fst (validate_resilience_options
            \<lparr>resilience_options = [(''extrapolator'', PyStr ''CubicExtrapolator''), (''foo'', PyInt 1)], emitted = []\<rparr>) =
       Inl (ValueError [Lit (''Unsupported value '' @ [CHR 0x27]), Fmt (PyStr ''foo''),
                        Lit ''' for resilience.''])
   \<and> fst ` set [(''noise_amplifier'', PyStr ''Bogus''), (''extrapolator'', PyStr ''CubicExtrapolator'')]
        \<subseteq> {''noise_amplifier'', ''noise_factors'', ''extrapolator''}
   \<and> py_or (py_get [(''noise_amplifier'', PyStr ''Bogus''), (''extrapolator'', PyStr ''CubicExtrapolator'')] ''noise_amplifier'')
        (PyStr ''TwoQubitAmplifier'')
       \<notin> {PyStr ''TwoQubitAmplifier'', PyStr ''GlobalFoldingAmplifier'',
           PyStr ''LocalFoldingAmplifier'', PyStr ''CxAmplifier''}
   \<and> fst (validate_resilience_options
            \<lparr>resilience_options = [(''noise_amplifier'', PyStr ''Bogus''), (''extrapolator'', PyStr ''CubicExtrapolator'')], emitted = []\<rparr>) =
       Inl (ValueError
         [Lit ''Unsupported value '', Fmt (PyStr ''Bogus''),
          Lit '' for noise_amplifier. Supported values are '',
          Fmt (PyTuple [PyStr ''TwoQubitAmplifier'', PyStr ''GlobalFoldingAmplifier'',
                        PyStr ''LocalFoldingAmplifier'', PyStr ''CxAmplifier''])])"
  using missing_noise_factors_raise_type_error
          [of "\<lparr>resilience_options = [(''extrapolator'', PyStr ''CubicExtrapolator'')],
               emitted = []\<rparr>"]
        missing_noise_factors_raise_type_error
          [of "\<lparr>resilience_options = [(''extrapolator'', PyStr ''QuarticExtrapolator'')],
               emitted = []\<rparr>"]
        missing_noise_factors_raise_type_error
          [of "\<lparr>resilience_options = [(''extrapolator'', PyStr ''CubicExtrapolator''), (''foo'', PyInt 1)], emitted = []\<rparr>"]
        missing_noise_factors_raise_type_error
          [of "\<lparr>resilience_options = [(''noise_amplifier'', PyStr ''Bogus''), (''extrapolator'', PyStr ''CubicExtrapolator'')], emitted = []\<rparr>"]
  by (auto simp add: py_get_def py_or_def Cons_eq_append_conv)

text \<open>
  The claim as it is written fails at \<open>{"extrapolator": "CubicExtrapolator", "foo": 1}\<close>:
  the noise factors are absent, and the call fails with the error of the key loop, one of
  the validator's own errors, before any length is taken.
\<close>

theorem missing_noise_factors_counterexample:
  "py_get [(''extrapolator'', PyStr ''CubicExtrapolator''), (''foo'', PyInt 1)] ''extrapolator''
     = PyStr ''CubicExtrapolator''
   \<and> ''noise_factors''
       \<notin> fst ` set [(''extrapolator'', PyStr ''CubicExtrapolator''), (''foo'', PyInt 1)]
   \<and> fst (validate_resilience_options
            \<lparr>resilience_options =
               [(''extrapolator'', PyStr ''CubicExtrapolator''), (''foo'', PyInt 1)],
             emitted = []\<rparr>) =
       Inl (ValueError [Lit (''Unsupported value '' @ [CHR 0x27]), Fmt (PyStr ''foo''),
                        Lit ''' for resilience.''])"
  by (simp add: validate_fst py_get_def unsupported_option_def ResilienceSupportedOptions_def)

text \<open>
  C9. The validator reads of the noise factors nothing but their length, and that only
  for the cubic and the quartic extrapolator. A dictionary that passes the key loop and the
  two value checks with the extrapolator \<open>LinearExtrapolator\<close> or
  \<open>QuadraticExtrapolator\<close> is accepted whatever is bound to \<open>noise_factors\<close>: nothing,
  \<open>None\<close>, a number, a sequence of anything. In general, two dictionaries with the same
  keys in the same order, the same noise amplifier and the same extrapolator have the same
  outcome, provided that their noise factors have the same \<open>len\<close> when the extrapolator is
  cubic or quartic; the elements are never looked at.
\<close>

theorem noise_factors_only_length:
  "(fst ` set (resilience_options s)
        \<subseteq> {''noise_amplifier'', ''noise_factors'', ''extrapolator''}
      \<and> py_or (py_get (resilience_options s) ''noise_amplifier'') (PyStr ''TwoQubitAmplifier'')
        \<in> {PyStr ''TwoQubitAmplifier'', PyStr ''GlobalFoldingAmplifier'',
            PyStr ''LocalFoldingAmplifier'', PyStr ''CxAmplifier''}
      \<and> py_get (resilience_options s) ''extrapolator''
        \<in> {PyStr ''LinearExtrapolator'', PyStr ''QuadraticExtrapolator''}
      \<longrightarrow> fst (validate_resilience_options s) = Inr ())
   \<and> (map fst (resilience_options s') = map fst (resilience_options s)
      \<and> py_get (resilience_options s') ''noise_amplifier''
        = py_get (resilience_options s) ''noise_amplifier''
      \<and> py_get (resilience_options s') ''extrapolator''
        = py_get (resilience_options s) ''extrapolator''
      \<and> (py_get (resilience_options s) ''extrapolator''
            \<in> {PyStr ''CubicExtrapolator'', PyStr ''QuarticExtrapolator''} \<longrightarrow>
          py_len (py_get (resilience_options s') ''noise_factors'')
            = py_len (py_get (resilience_options s) ''noise_factors''))
      \<longrightarrow> fst (validate_resilience_options s') = fst (validate_resilience_options s))"
  (is "?A \<and> ?B")
proof -
  let ?d = "resilience_options s" and ?d' = "resilience_options s'"
  have A: ?A
  proof (intro impI, elim conjE)
    assume keys: "fst ` set ?d \<subseteq> {''noise_amplifier'', ''noise_factors'', ''extrapolator''}"
      and amp: "py_or (py_get ?d ''noise_amplifier'') (PyStr ''TwoQubitAmplifier'')
        \<in> {PyStr ''TwoQubitAmplifier'', PyStr ''GlobalFoldingAmplifier'',
            PyStr ''LocalFoldingAmplifier'', PyStr ''CxAmplifier''}"
      and ext: "py_get ?d ''extrapolator''
        \<in> {PyStr ''LinearExtrapolator'', PyStr ''QuadraticExtrapolator''}"
    from keys have keys': "set (map fst ?d) \<subseteq> set ResilienceSupportedOptions"
      by (simp only: supported_names set_map)
    from amp have amp':
      "py_in (py_or (py_get ?d ''noise_amplifier'') (PyStr ''TwoQubitAmplifier''))
         NoiseAmplifierType"
      by (simp only: py_in_NoiseAmplifierType)
    from ext have ext': "py_in (py_get ?d ''extrapolator'') ExtrapolatorType"
      by (auto simp: py_in_ExtrapolatorType)
    from ext show "fst (validate_resilience_options s) = Inr ()"
      unfolding validate_fst_keys_ok [OF keys']
      using amp' ext' by auto
  qed
  have B: ?B
  proof (intro impI, elim conjE)
    assume keys: "map fst ?d' = map fst ?d"
      and amp: "py_get ?d' ''noise_amplifier'' = py_get ?d ''noise_amplifier''"
      and ext: "py_get ?d' ''extrapolator'' = py_get ?d ''extrapolator''"
      and len: "py_get ?d ''extrapolator''
            \<in> {PyStr ''CubicExtrapolator'', PyStr ''QuarticExtrapolator''} \<longrightarrow>
          py_len (py_get ?d' ''noise_factors'') = py_len (py_get ?d ''noise_factors'')"
    show "fst (validate_resilience_options s') = fst (validate_resilience_options s)"
    proof (cases "check_keys (map fst ?d)")
      case (Some e)
      then have "check_keys (map fst ?d') = Some e"
        by (simp only: keys)
      then have "fst (validate_resilience_options s') = Inl e"
        by (rule validate_fst_bad_key)
      with validate_fst_bad_key [OF Some] show ?thesis
        by simp
    next
      case None
      then have ok: "set (map fst ?d) \<subseteq> set ResilienceSupportedOptions"
        by (simp only: check_keys_None)
      then have ok': "set (map fst ?d') \<subseteq> set ResilienceSupportedOptions"
        by (simp only: keys)
      consider (quartic) "py_get ?d ''extrapolator'' = PyStr ''QuarticExtrapolator''"
        | (cubic) "py_get ?d ''extrapolator'' = PyStr ''CubicExtrapolator''"
        | (other) "py_get ?d ''extrapolator'' \<noteq> PyStr ''QuarticExtrapolator''"
            "py_get ?d ''extrapolator'' \<noteq> PyStr ''CubicExtrapolator''"
        by blast
      then show ?thesis
      proof cases
        case quartic
        with len have "py_len (py_get ?d' ''noise_factors'') = py_len (py_get ?d ''noise_factors'')"
          by simp
        then show ?thesis
          by (simp add: validate_fst_keys_ok [OF ok] validate_fst_keys_ok [OF ok'] amp ext quartic)
      next
        case cubic
        with len have "py_len (py_get ?d' ''noise_factors'') = py_len (py_get ?d ''noise_factors'')"
          by simp
        then show ?thesis
          by (simp add: validate_fst_keys_ok [OF ok] validate_fst_keys_ok [OF ok'] amp ext cubic)
      next
        case other
        then show ?thesis
          by (simp add: validate_fst_keys_ok [OF ok] validate_fst_keys_ok [OF ok'] amp ext)
      qed
    qed
  qed
  from A B show ?thesis
    by (intro conjI)
qed

text \<open>
  The theorem at \<open>{"extrapolator": "LinearExtrapolator", "noise_factors": 7}\<close>, which is
  accepted although \<open>7\<close> is no sequence, and at the cubic extrapolator with the noise
  factors \<open>[1, 2, 3, 4]\<close> and \<open>["a", None, [], True]\<close>, which are both accepted.
\<close>

theorem noise_factors_only_length_witness:
  "fst ` set [(''extrapolator'', PyStr ''LinearExtrapolator''), (''noise_factors'', PyInt 7)]
      \<subseteq> {''noise_amplifier'', ''noise_factors'', ''extrapolator''}
   \<and> py_get [(''extrapolator'', PyStr ''LinearExtrapolator''), (''noise_factors'', PyInt 7)]
        ''extrapolator'' = PyStr ''LinearExtrapolator''
   \<and> fst (validate_resilience_options
            \<lparr>resilience_options =
               [(''extrapolator'', PyStr ''LinearExtrapolator''), (''noise_factors'', PyInt 7)],
             emitted = []\<rparr>) = Inr ()
   \<and> py_len (PyList [PyStr ''a'', PyNone, PyList [], PyBool True])
       = py_len (PyList [PyInt 1, PyInt 2, PyInt 3, PyInt 4])
   \<and> fst (validate_resilience_options
            \<lparr>resilience_options =
               [(''extrapolator'', PyStr ''CubicExtrapolator''),
                (''noise_factors'', PyList [PyStr ''a'', PyNone, PyList [], PyBool True])],
             emitted = []\<rparr>) =
       fst (validate_resilience_options
            \<lparr>resilience_options =
               [(''extrapolator'', PyStr ''CubicExtrapolator''),
                (''noise_factors'', PyList [PyInt 1, PyInt 2, PyInt 3, PyInt 4])],
             emitted = []\<rparr>)"
  using noise_factors_only_length
          [of "\<lparr>resilience_options =
                 [(''extrapolator'', PyStr ''LinearExtrapolator''), (''noise_factors'', PyInt 7)],
               emitted = []\<rparr>"
              "\<lparr>resilience_options =
                 [(''extrapolator'', PyStr ''LinearExtrapolator''), (''noise_factors'', PyInt 7)],
               emitted = []\<rparr>"]
        noise_factors_only_length
          [of "\<lparr>resilience_options =
                 [(''extrapolator'', PyStr ''CubicExtrapolator''),
                  (''noise_factors'', PyList [PyInt 1, PyInt 2, PyInt 3, PyInt 4])],
               emitted = []\<rparr>"
              "\<lparr>resilience_options =
                 [(''extrapolator'', PyStr ''CubicExtrapolator''),
                  (''noise_factors'', PyList [PyStr ''a'', PyNone, PyList [], PyBool True])],
               emitted = []\<rparr>"]
  by (simp add: py_get_def py_or_def)




end
